theory Spec2Isabelle
  imports Complex_Main "HOL-Library.Log_Nat"
begin

section \<open>Account ledger and redemption codes of the Chloe server\<close>

text \<open>
  A shallow embedding of \<^verbatim>\<open>src/endpoints/account.js\<close>, of the administrative routes
  (\<^verbatim>\<open>endpoints/admin.js\<close>), of the invite-code registration route
  (\<^verbatim>\<open>src/endpoints/users-public.js\<close>) and of \<^verbatim>\<open>ensureUser\<close> of the OAuth router.

  Conventions of the embedding.
  \<^item> Instants are epoch milliseconds, of type \<open>int\<close>. Every clock reading of one request
    (\<^verbatim>\<open>Date.now()\<close>, \<^verbatim>\<open>todayMidnight()\<close>) is taken at the same instant \<open>now\<close>, which is
    a parameter of each operation.
  \<^item> The server's local time zone is a fixed offset \<open>tz\<close>, in minutes as
    \<^verbatim>\<open>Date.getTimezoneOffset()\<close> reports it (positive west of UTC); daylight-saving
    changes are outside the model.
  \<^item> JavaScript numbers that hold points are rationals in the ledger routes: the
    arithmetic of the source is exact on them as long as the doubles are exact. The
    administrative route that changes a balance is followed in double precision, on the
    account objects as the store holds them in JSON.
  \<^item> The persistent store of \<^verbatim>\<open>node-persist\<close> is a record of maps, one per key prefix
    (\<^verbatim>\<open>account:\<close>, \<^verbatim>\<open>redeem:\<close>, \<^verbatim>\<open>invite:\<close>, \<^verbatim>\<open>user:\<close>) and the entry \<^verbatim>\<open>system:config\<close>. An
    object read from the store is a value; mutating it in place is a record update, and
    only \<^verbatim>\<open>storage.setItem\<close> changes the store. Storage and file-system failures are not
    modelled, nor is the content directory of a user.
  \<^item> A handler returns the store it leaves and either an error (\<open>Inl\<close>) or its response.
\<close>

subsection \<open>Constants, clock and rounding\<close>

definition MS_PER_DAY :: int where
  "MS_PER_DAY = 24 * 60 * 60 * 1000"

definition COOLDOWN_MS :: int where
  "COOLDOWN_MS = 24 * 60 * 60 * 1000"

text \<open>\<^verbatim>\<open>todayMidnight(ts)\<close>: the local midnight at or before \<open>ts\<close>.\<close>

definition todayMidnight :: "int \<Rightarrow> int \<Rightarrow> int" where
  "todayMidnight tz ts = ts - (ts - tz * 60000) mod MS_PER_DAY"

text \<open>
  A date string \<^verbatim>\<open>YYYY-MM-DD\<close> is represented by the number of its calendar day (days since
  1970-01-01), the empty string by \<open>None\<close>. \<^verbatim>\<open>toDateString(ts)\<close> is the local calendar day
  of \<open>ts\<close>, and \<^verbatim>\<open>Date.parse(`${d}T00:00:00Z`)\<close> is the UTC midnight of day \<open>d\<close>.
\<close>

type_synonym dateString = "int option"

definition toDateString :: "int \<Rightarrow> int \<Rightarrow> dateString" where
  "toDateString tz ts = Some ((ts - tz * 60000) div MS_PER_DAY)"

definition parseDateUTC :: "int \<Rightarrow> int" where
  "parseDateUTC d = d * MS_PER_DAY"

text \<open>\<^verbatim>\<open>Math.round\<close> rounds to the nearest integer, a half towards plus infinity.\<close>

definition Math_round :: "rat \<Rightarrow> int" where
  "Math_round x = \<lfloor>x + 1 / 2\<rfloor>"

text \<open>The expression \<^verbatim>\<open>Math.round(x * 2) / 2\<close>, which every mutation of points uses.\<close>

definition roundHalf :: "rat \<Rightarrow> rat" where
  "roundHalf x = of_int (Math_round (x * 2)) / 2"

subsection \<open>Records of the store\<close>

record AccountState =
  handle :: string
  points :: rat
  accessOn :: bool
  lastCostAppliedAt :: int
  lastCheckInDate :: dateString
  lastCheckInAt :: "int option"
  accessOffSince :: "int option"
  createdAt :: int

text \<open>
  The fields of the other stored objects carry a prefix, since several of them share a
  name with a field of the ledger: \<open>r_\<close> for a redeem code, \<open>i_\<close> for an invite code,
  \<open>u_\<close> for a user.
\<close>

record RedeemCode =
  r_code :: string
  r_points :: rat
  r_used :: bool
  r_usedBy :: "string option"
  r_createdAt :: int
  r_usedAt :: "int option"

record InviteCode =
  i_code :: string
  i_used :: bool
  i_usedBy :: "string option"
  i_createdAt :: int
  i_usedAt :: "int option"
  i_expiresAt :: "int option"

record User =
  u_handle :: string
  u_name :: string
  u_created :: int
  u_password :: string
  u_admin :: bool
  u_enabled :: bool
  u_salt :: string

record SystemConfig =
  registrationEnabled :: bool

record store =
  accounts :: "string \<rightharpoonup> AccountState"
  redeems :: "string \<rightharpoonup> RedeemCode"
  invites :: "string \<rightharpoonup> InviteCode"
  users :: "string \<rightharpoonup> User"
  config :: "SystemConfig option"

definition emptyStore :: store where
  "emptyStore = \<lparr>accounts = Map.empty, redeems = Map.empty, invites = Map.empty,
     users = Map.empty, config = None\<rparr>"

datatype error =
    MissingAccessOn
  | InsufficientPoints
  | Cooldown int
  | MissingCode
  | CodeNotFound
  | CodeAlreadyUsed
  | InvalidAction
  | InvalidAmount
  | AccountNotFound
  | InvalidPoints
  | InvalidCount
  | InvalidExpiry
  | GenerationFailed
  | InviteUsed
  | InviteExpired
  | MissingHandle
  | WeakPassword
  | HandleTooShort
  | HandleBlacklisted
  | HandleReserved
  | HandleTaken
  | RegistrationDisabled

subsection \<open>Key naming\<close>

text \<open>\<^verbatim>\<open>String.prototype.toUpperCase\<close> and \<^verbatim>\<open>toLowerCase\<close>, on ASCII strings.\<close>

definition upperChar :: "char \<Rightarrow> char" where
  "upperChar c =
     (case map_of (zip ''abcdefghijklmnopqrstuvwxyz'' ''ABCDEFGHIJKLMNOPQRSTUVWXYZ'') c of
        Some u \<Rightarrow> u | None \<Rightarrow> c)"

definition lowerChar :: "char \<Rightarrow> char" where
  "lowerChar c =
     (case map_of (zip ''ABCDEFGHIJKLMNOPQRSTUVWXYZ'' ''abcdefghijklmnopqrstuvwxyz'') c of
        Some l \<Rightarrow> l | None \<Rightarrow> c)"

definition toUpperCase :: "string \<Rightarrow> string" where
  "toUpperCase s = map upperChar s"

definition toLowerCase :: "string \<Rightarrow> string" where
  "toLowerCase s = map lowerChar s"

text \<open>
  \<^verbatim>\<open>toRedeemCodeKey\<close> and \<^verbatim>\<open>toInviteCodeKey\<close> upper-case the code before the prefix; the
  prefix itself is the choice of the map, so the key inside a map is the upper-cased code.
  \<^verbatim>\<open>toAccountKey\<close> and \<^verbatim>\<open>toKey\<close> keep the handle as it is.
\<close>

definition toRedeemCodeKey :: "string \<Rightarrow> string" where
  "toRedeemCodeKey c = toUpperCase c"

definition toInviteCodeKey :: "string \<Rightarrow> string" where
  "toInviteCodeKey c = toUpperCase c"

definition setAccount :: "store \<Rightarrow> string \<Rightarrow> AccountState \<Rightarrow> store" where
  "setAccount s h st = s\<lparr>accounts := (accounts s)(h \<mapsto> st)\<rparr>"

subsection \<open>The ledger: \<^verbatim>\<open>account.js\<close>\<close>

definition getOrInitState :: "int \<Rightarrow> store \<Rightarrow> string \<Rightarrow> int \<Rightarrow> store \<times> AccountState" where
  "getOrInitState tz s h now =
     (case accounts s h of
        Some existing \<Rightarrow> (s, existing)
      | None \<Rightarrow>
          (let initial = \<lparr>handle = h, points = 20, accessOn = True,
                 lastCostAppliedAt = todayMidnight tz now, lastCheckInDate = None,
                 lastCheckInAt = None, accessOffSince = None, createdAt = now\<rparr>
           in (setAccount s h initial, initial)))"

text \<open>
  \<^verbatim>\<open>state.lastCostAppliedAt || todayMidnight(state.createdAt || Date.now())\<close>: the number 0
  is falsy.
\<close>

definition appliedFrom :: "int \<Rightarrow> AccountState \<Rightarrow> int \<Rightarrow> int" where
  "appliedFrom tz st now =
     (if lastCostAppliedAt st \<noteq> 0 then lastCostAppliedAt st
      else todayMidnight tz (if createdAt st \<noteq> 0 then createdAt st else now))"

text \<open>
  The condition of the purge,
  \<^verbatim>\<open>state.accessOn === false && state.accessOffSince && (Date.now() - state.accessOffSince) >= 30 * MS_PER_DAY\<close>;
  \<^verbatim>\<open>null\<close> and 0 are falsy.
\<close>

definition purgeDue :: "AccountState \<Rightarrow> int \<Rightarrow> bool" where
  "purgeDue st now =
     (accessOn st = False \<and>
      (case accessOffSince st of
         None \<Rightarrow> False
       | Some since \<Rightarrow> since \<noteq> 0 \<and> now - since \<ge> 30 * MS_PER_DAY))"

text \<open>\<^verbatim>\<open>purgeUserData\<close> removes the identity record \<^verbatim>\<open>user:<handle>\<close>.\<close>

definition purgeUserData :: "store \<Rightarrow> string \<Rightarrow> store" where
  "purgeUserData s h = s\<lparr>users := (users s)(h := None)\<rparr>"

definition applyDailyCosts :: "int \<Rightarrow> store \<Rightarrow> AccountState \<Rightarrow> int \<Rightarrow> store \<times> AccountState" where
  "applyDailyCosts tz s st now =
     (let nowMid = todayMidnight tz now;
          start = appliedFrom tz st now
      in if start > nowMid then (s, st\<lparr>lastCostAppliedAt := nowMid\<rparr>)
         else
           (let days = (nowMid - start) div MS_PER_DAY;
                (s1, st1) =
                  (if days > 0 then
                     (let rate = (if accessOn st then 1 else 0);
                          cost = days * rate;
                          charged = st\<lparr>points := max 0 (roundHalf (points st - of_int cost)),
                                       lastCostAppliedAt := start + days * MS_PER_DAY\<rparr>
                      in (setAccount s (handle charged) charged, charged))
                   else (s, st))
            in if purgeDue st1 now then
                 (let s2 = purgeUserData s1 (handle st1);
                      reset = st1\<lparr>points := 0, accessOn := False, lastCheckInDate := None,
                                  accessOffSince := Some (todayMidnight tz now),
                                  lastCostAppliedAt := todayMidnight tz now\<rparr>
                  in (setAccount s2 (handle reset) reset, reset))
               else (s1, st1)))"

text \<open>
  The migration of the legacy date string, written twice in the source (in
  \<^verbatim>\<open>buildStatus\<close> and in the check-in route): when \<^verbatim>\<open>lastCheckInAt\<close> is \<^verbatim>\<open>null\<close> and the date
  string is not empty, the check-in instant is the UTC midnight of that date.
\<close>

definition migratedLastCheckInAt :: "AccountState \<Rightarrow> int option" where
  "migratedLastCheckInAt st =
     (case lastCheckInAt st of
        Some t \<Rightarrow> Some t
      | None \<Rightarrow> (case lastCheckInDate st of None \<Rightarrow> None | Some d \<Rightarrow> Some (parseDateUTC d)))"

record Status =
  s_handle :: string
  s_points :: rat
  s_accessOn :: bool
  s_offDays :: int
  s_canCheckInToday :: bool
  s_nextCheckInAt :: int
  s_purged :: bool

definition buildStatus :: "int \<Rightarrow> store \<Rightarrow> string \<Rightarrow> int \<Rightarrow> store \<times> Status" where
  "buildStatus tz s h now =
     (let (s0, st0) = getOrInitState tz s h now;
          beforeOffSince = accessOffSince st0;
          (s1, st) = applyDailyCosts tz s0 st0 now;
          offDays =
            (case accessOffSince st of
               None \<Rightarrow> 0
             | Some since \<Rightarrow>
                 if accessOn st \<or> since = 0 then 0
                 else (todayMidnight tz now - todayMidnight tz since) div MS_PER_DAY);
          last = migratedLastCheckInAt st;
          canCheckInToday = (case last of None \<Rightarrow> True | Some t \<Rightarrow> now - t \<ge> COOLDOWN_MS);
          nextCheckInAt = (case last of None \<Rightarrow> now | Some t \<Rightarrow> t + COOLDOWN_MS);
          didPurge =
            (case beforeOffSince of
               None \<Rightarrow> False
             | Some since \<Rightarrow> since \<noteq> 0 \<and> \<not> accessOn st \<and> now - since \<ge> 30 * MS_PER_DAY)
      in (s1, \<lparr>s_handle = h, s_points = points st, s_accessOn = accessOn st,
               s_offDays = offDays, s_canCheckInToday = canCheckInToday,
               s_nextCheckInAt = nextCheckInAt, s_purged = didPurge\<rparr>))"

record CheckInResponse =
  c_points :: rat
  c_lastCheckInAt :: int
  c_lastCheckInDate :: dateString
  c_nextCheckInAt :: int

definition checkin :: "int \<Rightarrow> store \<Rightarrow> string \<Rightarrow> int \<Rightarrow> store \<times> (error + CheckInResponse)" where
  "checkin tz s h now =
     (let (s0, st0) = getOrInitState tz s h now;
          (s1, st) = applyDailyCosts tz s0 st0 now;
          last = migratedLastCheckInAt st;
          st' = st\<lparr>points := roundHalf (points st + 5), lastCheckInAt := Some now,
                   lastCheckInDate := toDateString tz now\<rparr>;
          credited =
            (setAccount s1 h st',
             Inr \<lparr>c_points = points st', c_lastCheckInAt = now,
                  c_lastCheckInDate = toDateString tz now,
                  c_nextCheckInAt = now + COOLDOWN_MS\<rparr>)
      in case last of
           None \<Rightarrow> credited
         | Some t \<Rightarrow>
             if now - t < COOLDOWN_MS then (s1, Inl (Cooldown (t + COOLDOWN_MS)))
             else credited)"

record ToggleResponse =
  t_accessOn :: bool
  t_points :: rat

text \<open>
  The body's \<^verbatim>\<open>accessOn\<close> is \<open>None\<close> when it is missing or not a boolean.
\<close>

definition toggle :: "int \<Rightarrow> store \<Rightarrow> string \<Rightarrow> bool option \<Rightarrow> int \<Rightarrow> store \<times> (error + ToggleResponse)" where
  "toggle tz s h body now =
     (case body of
        None \<Rightarrow> (s, Inl MissingAccessOn)
      | Some desired \<Rightarrow>
          (let (s0, st0) = getOrInitState tz s h now;
               (s1, st) = applyDailyCosts tz s0 st0 now
           in if accessOn st \<noteq> desired then
                (if desired then
                   (if points st < 1 then (s1, Inl InsufficientPoints)
                    else
                      (let st' = st\<lparr>points := max 0 (roundHalf (points st - 1)),
                                    accessOn := True, accessOffSince := None\<rparr>
                       in (setAccount s1 h st',
                           Inr \<lparr>t_accessOn = accessOn st', t_points = points st'\<rparr>)))
                 else
                   (let st' = st\<lparr>accessOn := False, accessOffSince := Some now\<rparr>
                    in (setAccount s1 h st',
                        Inr \<lparr>t_accessOn = accessOn st', t_points = points st'\<rparr>)))
              else (s1, Inr \<lparr>t_accessOn = accessOn st, t_points = points st\<rparr>)))"

record RedeemResponse =
  rr_points :: rat
  rr_addedPoints :: rat

definition redeem :: "int \<Rightarrow> store \<Rightarrow> string \<Rightarrow> string \<Rightarrow> int \<Rightarrow> store \<times> (error + RedeemResponse)" where
  "redeem tz s h code now =
     (if code = [] then (s, Inl MissingCode)
      else
        (let codeKey = toRedeemCodeKey code
         in case redeems s codeKey of
              None \<Rightarrow> (s, Inl CodeNotFound)
            | Some redeemData \<Rightarrow>
                if r_used redeemData then (s, Inl CodeAlreadyUsed)
                else
                  (let marked = redeemData\<lparr>r_used := True, r_usedBy := Some h,
                                           r_usedAt := Some now\<rparr>;
                       sm = s\<lparr>redeems := (redeems s)(codeKey \<mapsto> marked)\<rparr>;
                       (s0, st0) = getOrInitState tz sm h now;
                       (s1, st) = applyDailyCosts tz s0 st0 now;
                       st' = st\<lparr>points := roundHalf (points st + r_points marked)\<rparr>
                   in (setAccount s1 h st',
                       Inr \<lparr>rr_points = points st', rr_addedPoints = r_points marked\<rparr>))))"

datatype denial = NOT_LOGGED_IN | OFF | NO_POINTS

text \<open>
  \<^verbatim>\<open>getEffectiveAccess\<close>: \<open>None\<close> as the result is \<^verbatim>\<open>{ allowed: true }\<close>, \<open>Some r\<close> is a
  denial with reason \<open>r\<close>. The request's user is \<open>None\<close> when nobody is logged in.
\<close>

definition getEffectiveAccess :: "int \<Rightarrow> store \<Rightarrow> string option \<Rightarrow> int \<Rightarrow> store \<times> denial option" where
  "getEffectiveAccess tz s user now =
     (case user of
        None \<Rightarrow> (s, Some NOT_LOGGED_IN)
      | Some h \<Rightarrow>
          (let (s0, st0) = getOrInitState tz s h now;
               (s1, st) = applyDailyCosts tz s0 st0 now
           in if \<not> accessOn st then (s1, Some OFF)
              else if points st \<le> 0 then (s1, Some NO_POINTS)
              else (s1, None)))"

subsection \<open>Numbers of JavaScript\<close>

text \<open>
  The route that changes a balance on behalf of an administrator takes its amount from the
  request body, where any JSON number may stand, so its arithmetic is followed in IEEE 754
  double precision, the number type of JavaScript. A number is a finite double, given by
  its exact rational value, an infinity or NaN. The sign of zero is not kept: no result of
  the route depends on it.
\<close>

datatype jsnum = Fin rat | PInf | NInf | NaN

text \<open>\<open>pow2 k\<close> is the power of 2 with the exponent \<open>k\<close>, of either sign.\<close>

definition pow2 :: "int \<Rightarrow> rat" where
  "pow2 k = (if 0 \<le> k then 2 ^ nat k else 1 / 2 ^ nat (- k))"

text \<open>
  The binary exponent of a rational \<open>x \<noteq> 0\<close>: the \<open>e\<close> with \<open>pow2 e \<le> \<bar>x\<bar> < pow2 (e + 1)\<close>. The bit lengths
  of numerator and denominator give it up to one.
\<close>

definition exponent :: "rat \<Rightarrow> int" where
  "exponent x =
     (let (n, d) = quotient_of x; e = bitlen \<bar>n\<bar> - bitlen d
      in if pow2 e \<le> \<bar>x\<bar> then e else e - 1)"

text \<open>Rounding to the nearest integer, a tie to the even one.\<close>

definition roundEven :: "rat \<Rightarrow> int" where
  "roundEven r =
     (let f = \<lfloor>r\<rfloor>; d = r - of_int f
      in if d < 1 / 2 then f else if 1 / 2 < d then f + 1 else if even f then f else f + 1)"

text \<open>
  \<open>fl x\<close> is the double that stands for the real number \<open>x\<close>: the nearest number with 53
  significant bits and an exponent of at least \<open>-1022\<close> (below it the spacing stays
  \<open>pow2 (- 1074)\<close>), a tie to the even significand, and an infinity when the rounded value
  reaches \<open>pow2 1024\<close>. It is the result of every arithmetic operation on the exact result, and
  the value that \<^verbatim>\<open>JSON.parse\<close> gives to a number literal.
\<close>

definition fl :: "rat \<Rightarrow> jsnum" where
  "fl x =
     (if x = 0 then Fin 0
      else
        (let e = max (exponent x) (- 1022);
             ulp = pow2 (e - 52);
             y = of_int (roundEven (x / ulp)) * ulp
         in if pow2 1024 \<le> \<bar>y\<bar> then (if 0 < x then PInf else NInf) else Fin y))"

text \<open>The operators \<^verbatim>\<open>-x\<close>, \<^verbatim>\<open>a < b\<close>, \<^verbatim>\<open>a + b\<close>, \<^verbatim>\<open>a - b\<close>, \<^verbatim>\<open>a * b\<close> and \<^verbatim>\<open>a / b\<close> on numbers.\<close>

definition jsNeg :: "jsnum \<Rightarrow> jsnum" where
  "jsNeg a = (case a of Fin x \<Rightarrow> Fin (- x) | PInf \<Rightarrow> NInf | NInf \<Rightarrow> PInf | NaN \<Rightarrow> NaN)"

definition jsLess :: "jsnum \<Rightarrow> jsnum \<Rightarrow> bool" where
  "jsLess a b =
     (case (a, b) of
        (Fin x, Fin y) \<Rightarrow> x < y
      | (Fin x, PInf) \<Rightarrow> True
      | (NInf, Fin y) \<Rightarrow> True
      | (NInf, PInf) \<Rightarrow> True
      | _ \<Rightarrow> False)"

definition jsAdd :: "jsnum \<Rightarrow> jsnum \<Rightarrow> jsnum" where
  "jsAdd a b =
     (case (a, b) of
        (Fin x, Fin y) \<Rightarrow> fl (x + y)
      | (NaN, _) \<Rightarrow> NaN
      | (_, NaN) \<Rightarrow> NaN
      | (PInf, NInf) \<Rightarrow> NaN
      | (NInf, PInf) \<Rightarrow> NaN
      | (PInf, _) \<Rightarrow> PInf
      | (NInf, _) \<Rightarrow> NInf
      | (Fin x, c) \<Rightarrow> c)"

definition jsSub :: "jsnum \<Rightarrow> jsnum \<Rightarrow> jsnum" where
  "jsSub a b = jsAdd a (jsNeg b)"

definition jsMul :: "jsnum \<Rightarrow> jsnum \<Rightarrow> jsnum" where
  "jsMul a b =
     (case (a, b) of
        (Fin x, Fin y) \<Rightarrow> fl (x * y)
      | (NaN, _) \<Rightarrow> NaN
      | (_, NaN) \<Rightarrow> NaN
      | _ \<Rightarrow>
          (if a = Fin 0 \<or> b = Fin 0 then NaN
           else if jsLess a (Fin 0) = jsLess b (Fin 0) then PInf else NInf))"

definition jsDiv :: "jsnum \<Rightarrow> jsnum \<Rightarrow> jsnum" where
  "jsDiv a b =
     (case (a, b) of
        (Fin x, Fin y) \<Rightarrow>
          (if y \<noteq> 0 then fl (x / y)
           else if x = 0 then NaN else if 0 < x then PInf else NInf)
      | (NaN, _) \<Rightarrow> NaN
      | (_, NaN) \<Rightarrow> NaN
      | (Fin x, _) \<Rightarrow> Fin 0
      | (_, Fin y) \<Rightarrow> (if jsLess a (Fin 0) = (y < 0) then PInf else NInf)
      | _ \<Rightarrow> NaN)"

text \<open>
  \<^verbatim>\<open>Math.round\<close> and \<^verbatim>\<open>Math.max\<close> on numbers. The nearest integer of a finite double is a
  double, so \<^verbatim>\<open>Math.round\<close> is exact; it leaves an infinity and NaN as they are.
\<close>

definition Math_round_num :: "jsnum \<Rightarrow> jsnum" where
  "Math_round_num a = (case a of Fin x \<Rightarrow> Fin (of_int (Math_round x)) | _ \<Rightarrow> a)"

definition Math_max :: "jsnum \<Rightarrow> jsnum \<Rightarrow> jsnum" where
  "Math_max a b = (if a = NaN \<or> b = NaN then NaN else if jsLess a b then b else a)"

text \<open>
  \<^verbatim>\<open>JSON.stringify\<close>, which writes the store and the responses, writes a finite number as
  it is and an infinity or NaN as \<^verbatim>\<open>null\<close>. A stored number or \<^verbatim>\<open>null\<close> is a value of type
  \<open>rat option\<close>, and \<^verbatim>\<open>p || 0\<close> reads it back as a number.
\<close>

definition toJSON :: "jsnum \<Rightarrow> rat option" where
  "toJSON a = (case a of Fin x \<Rightarrow> Some x | _ \<Rightarrow> None)"

definition orZero :: "rat option \<Rightarrow> jsnum" where
  "orZero p = (case p of None \<Rightarrow> Fin 0 | Some x \<Rightarrow> Fin x)"

subsection \<open>Administrative routes: points and codes\<close>

text \<open>
  \<^verbatim>\<open>POST /users/:handle/points\<close>. The route reads the account object under
  \<^verbatim>\<open>account:<handle>\<close>, replaces its \<^verbatim>\<open>points\<close> and writes it back; the response carries the
  new \<^verbatim>\<open>points\<close>. The account object is taken as the store holds it, in JSON, with the
  fields of the ledger under the prefix \<open>d_\<close> and \<^verbatim>\<open>points\<close> a number or \<^verbatim>\<open>null\<close>; the
  storage of the route is the map of these objects. The amount of the body is \<open>None\<close> when
  it is not of type number.
\<close>

record AccountData =
  d_handle :: string
  d_points :: "rat option"
  d_accessOn :: bool
  d_lastCostAppliedAt :: int
  d_lastCheckInDate :: dateString
  d_lastCheckInAt :: "int option"
  d_accessOffSince :: "int option"
  d_createdAt :: int

definition adminPoints ::
  "(string \<rightharpoonup> AccountData) \<Rightarrow> string \<Rightarrow> string \<Rightarrow> jsnum option
     \<Rightarrow> (string \<rightharpoonup> AccountData) \<times> (error + rat option)" where
  "adminPoints storage h action body_amount =
     (if action \<notin> set [''add'', ''subtract'', ''set''] then (storage, Inl InvalidAction)
      else
        (case body_amount of
           None \<Rightarrow> (storage, Inl InvalidAmount)
         | Some amount \<Rightarrow>
             if jsLess amount (Fin 0) then (storage, Inl InvalidAmount)
             else
               (case storage h of
                  None \<Rightarrow> (storage, Inl AccountNotFound)
                | Some accountData \<Rightarrow>
                    (let newPoints =
                           (if action = ''add'' then jsAdd (orZero (d_points accountData)) amount
                            else if action = ''subtract''
                              then Math_max (Fin 0) (jsSub (orZero (d_points accountData)) amount)
                            else amount);
                         pts = jsDiv (Math_round_num (jsMul newPoints (Fin 2))) (Fin 2);
                         updated = accountData\<lparr>d_points := toJSON pts\<rparr>
                     in (storage(h \<mapsto> updated), Inr (d_points updated))))))"

text \<open>
  \<^verbatim>\<open>generateRedeemCode(length)\<close> draws \<open>length\<close> characters. The random source is the
  sequence \<open>draw\<close>: its \<open>k\<close>-th element stands for the \<open>k\<close>-th value of
  \<^verbatim>\<open>Math.floor(Math.random() * chars.length)\<close>, which lies below the length of the
  alphabet; \<open>pos\<close> counts the draws made so far.
\<close>

definition chars :: string where
  "chars = ''ABCDEFGHIJKLMNOPQRSTUVWXYZ0123456789''"

definition generateRedeemCode :: "nat \<Rightarrow> (nat \<Rightarrow> nat) \<Rightarrow> nat \<Rightarrow> string" where
  "generateRedeemCode len draw pos =
     map (\<lambda>k. chars ! (draw (pos + k) mod length chars)) [0..<len]"

text \<open>
  The retry loop of both creation routes,
  \<^verbatim>\<open>while (await storage.getItem(key(code)) && attempts < limit) { code = generateRedeemCode(); attempts++; }\<close>,
  with \<open>taken code\<close> for the look-up. It returns the code, the attempts and the draws
  made when the loop is left.
\<close>

function retryCollision ::
  "(string \<Rightarrow> bool) \<Rightarrow> nat \<Rightarrow> (nat \<Rightarrow> nat) \<Rightarrow> string \<Rightarrow> nat \<Rightarrow> nat \<Rightarrow> string \<times> nat \<times> nat" where
  "retryCollision taken limit draw code attempts pos =
     (if taken code \<and> attempts < limit
      then retryCollision taken limit draw (generateRedeemCode 12 draw pos) (Suc attempts) (pos + 12)
      else (code, attempts, pos))"
  by pat_completeness auto
termination
  by (relation "measure (\<lambda>(taken, limit, draw, code, attempts, pos). limit - attempts)") auto

text \<open>The body of \<^verbatim>\<open>for (let i = 0; i < count; i++)\<close> of \<^verbatim>\<open>POST /redeem-codes\<close>.\<close>

fun createRedeemLoop ::
  "(nat \<Rightarrow> nat) \<Rightarrow> int \<Rightarrow> rat \<Rightarrow> nat \<Rightarrow> store \<Rightarrow> nat \<Rightarrow> RedeemCode list \<Rightarrow> store \<times> RedeemCode list" where
  "createRedeemLoop draw now pts 0 s pos codes = (s, codes)"
| "createRedeemLoop draw now pts (Suc n) s pos codes =
     (case retryCollision (\<lambda>c. redeems s (toRedeemCodeKey c) \<noteq> None) 10 draw
             (generateRedeemCode 12 draw pos) 0 (pos + 12) of
        (code, attempts, pos') \<Rightarrow>
          (let redeemCode = \<lparr>r_code = code, r_points = pts, r_used = False, r_usedBy = None,
                              r_createdAt = now, r_usedAt = None\<rparr>
           in createRedeemLoop draw now pts n
                (s\<lparr>redeems := (redeems s)(toRedeemCodeKey code \<mapsto> redeemCode)\<rparr>) pos'
                (codes @ [redeemCode])))"

definition createRedeemCodes ::
  "(nat \<Rightarrow> nat) \<Rightarrow> store \<Rightarrow> rat \<Rightarrow> int \<Rightarrow> int \<Rightarrow> store \<times> (error + RedeemCode list)" where
  "createRedeemCodes draw s pts count now =
     (if pts \<le> 0 then (s, Inl InvalidPoints)
      else if count \<le> 0 \<or> count > 100 then (s, Inl InvalidCount)
      else (case createRedeemLoop draw now pts (nat count) s 0 [] of
              (s', codes) \<Rightarrow> (s', Inr codes)))"

definition deleteRedeemCode :: "store \<Rightarrow> string \<Rightarrow> store \<times> (error + unit)" where
  "deleteRedeemCode s code =
     (let codeKey = toRedeemCodeKey code
      in case redeems s codeKey of
           None \<Rightarrow> (s, Inl CodeNotFound)
         | Some codeData \<Rightarrow> (s\<lparr>redeems := (redeems s)(codeKey := None)\<rparr>, Inr ()))"

text \<open>
  The body of the loop of \<^verbatim>\<open>POST /invite-codes\<close>, which returns from the route when the
  attempts reach 50.
\<close>

fun createInviteLoop ::
  "(nat \<Rightarrow> nat) \<Rightarrow> int \<Rightarrow> int option \<Rightarrow> nat \<Rightarrow> store \<Rightarrow> nat \<Rightarrow> InviteCode list
     \<Rightarrow> store \<times> (error + InviteCode list)" where
  "createInviteLoop draw now expiresAt 0 s pos created = (s, Inr created)"
| "createInviteLoop draw now expiresAt (Suc n) s pos created =
     (case retryCollision (\<lambda>c. invites s (toInviteCodeKey c) \<noteq> None) 50 draw
             (generateRedeemCode 12 draw pos) 0 (pos + 12) of
        (code, attempts, pos') \<Rightarrow>
          if attempts \<ge> 50 then (s, Inl GenerationFailed)
          else
            (let invite = \<lparr>i_code = code, i_used = False, i_usedBy = None, i_createdAt = now,
                            i_usedAt = None, i_expiresAt = expiresAt\<rparr>
             in createInviteLoop draw now expiresAt n
                  (s\<lparr>invites := (invites s)(toInviteCodeKey code \<mapsto> invite)\<rparr>) pos'
                  (created @ [invite])))"

definition createInviteCodes ::
  "(nat \<Rightarrow> nat) \<Rightarrow> store \<Rightarrow> int \<Rightarrow> int option \<Rightarrow> int \<Rightarrow> store \<times> (error + InviteCode list)" where
  "createInviteCodes draw s count expiresInDays now =
     (if count \<le> 0 \<or> count > 200 then (s, Inl InvalidCount)
      else
        (case expiresInDays of
           None \<Rightarrow> createInviteLoop draw now None (nat count) s 0 []
         | Some d \<Rightarrow>
             if d \<le> 0 \<or> d > 365 then (s, Inl InvalidExpiry)
             else createInviteLoop draw now (Some (now + d * 24 * 60 * 60 * 1000))
                    (nat count) s 0 []))"

definition deleteInviteCode :: "store \<Rightarrow> string \<Rightarrow> store \<times> (error + unit)" where
  "deleteInviteCode s code =
     (let k = toInviteCodeKey code
      in case invites s k of
           None \<Rightarrow> (s, Inl CodeNotFound)
         | Some data \<Rightarrow>
             if i_used data then (s, Inl InviteUsed)
             else (s\<lparr>invites := (invites s)(k := None)\<rparr>, Inr ()))"

subsection \<open>System configuration\<close>

definition getSystemConfig :: "store \<Rightarrow> store \<times> SystemConfig" where
  "getSystemConfig s =
     (case config s of
        None \<Rightarrow>
          (let defaultConfig = \<lparr>registrationEnabled = True\<rparr>
           in (s\<lparr>config := Some defaultConfig\<rparr>, defaultConfig))
      | Some c \<Rightarrow> (s, c))"

definition isRegistrationEnabled :: "store \<Rightarrow> store \<times> bool" where
  "isRegistrationEnabled s =
     (case getSystemConfig s of (s', c) \<Rightarrow> (s', registrationEnabled c \<noteq> False))"

text \<open>\<^verbatim>\<open>POST /config\<close> with a boolean \<^verbatim>\<open>registrationEnabled\<close>.\<close>

definition updateConfig :: "store \<Rightarrow> bool \<Rightarrow> store" where
  "updateConfig s enabled =
     (case getSystemConfig s of
        (s', c) \<Rightarrow> s'\<lparr>config := Some (c\<lparr>registrationEnabled := enabled\<rparr>)\<rparr>)"

subsection \<open>Registration with an invite code: \<^verbatim>\<open>users-public.js\<close>\<close>

definition USERNAME_BLACKLIST :: "string list" where
  "USERNAME_BLACKLIST =
     [''admin'', ''administrator'', ''root'', ''system'', ''moderator'', ''mod'',
      ''owner'', ''support'', ''help'', ''service'', ''api'', ''www'', ''ftp'',
      ''mail'', ''email'', ''webmaster'', ''postmaster'', ''hostmaster'',
      ''null'', ''undefined'', ''none'', ''test'', ''demo'', ''guest'',
      ''anonymous'', ''bot'', ''robot'', ''official'', ''staff'']"

definition sensitivePatterns :: "string list" where
  "sensitivePatterns = [''admin'', ''moderator'', ''support'', ''official'']"

text \<open>\<^verbatim>\<open>haystack.includes(needle)\<close>.\<close>

fun str_includes :: "string \<Rightarrow> string \<Rightarrow> bool" where
  "str_includes [] needle = (needle = [])"
| "str_includes (c # cs) needle =
     (take (length needle) (c # cs) = needle \<or> str_includes cs needle)"

text \<open>
  The three replacements of the handle's normalisation:
  \<^verbatim>\<open>.replace(/[^a-z0-9-_]/g, '-')\<close>, \<^verbatim>\<open>.replace(/-{2,}/g, '-')\<close> and
  \<^verbatim>\<open>.replace(/^-+|-+$/g, '')\<close>.
\<close>

definition replaceForbidden :: "string \<Rightarrow> string" where
  "replaceForbidden h =
     map (\<lambda>c. if c \<in> set ''abcdefghijklmnopqrstuvwxyz0123456789-_'' then c else CHR ''-'') h"

fun collapseDashes :: "string \<Rightarrow> string" where
  "collapseDashes (a # b # cs) =
     (if a = CHR ''-'' \<and> b = CHR ''-'' then collapseDashes (b # cs)
      else a # collapseDashes (b # cs))"
| "collapseDashes cs = cs"

definition stripDashes :: "string \<Rightarrow> string" where
  "stripDashes h =
     rev (dropWhile (\<lambda>c. c = CHR ''-'') (rev (dropWhile (\<lambda>c. c = CHR ''-'') h)))"

definition normHandle :: "string \<Rightarrow> string" where
  "normHandle h = take 64 (stripDashes (collapseDashes (replaceForbidden (toLowerCase h))))"

text \<open>
  \<^verbatim>\<open>finalHandle = normHandle || `user-${crypto.randomBytes(3).toString('hex')}`\<close>, with
  \<open>rndHex\<close> for the random hexadecimal digits.
\<close>

definition finalHandle :: "string \<Rightarrow> string \<Rightarrow> string" where
  "finalHandle rndHex h = (let nh = normHandle h in if nh \<noteq> [] then nh else ''user-'' @ rndHex)"

text \<open>\<^verbatim>\<open>String.prototype.trim\<close>, on ASCII white space.\<close>

definition isSpace :: "char \<Rightarrow> bool" where
  "isSpace c = (c \<in> set [CHR '' '', CHR 0x09, CHR 0x0A, CHR 0x0B, CHR 0x0C, CHR 0x0D])"

definition trim :: "string \<Rightarrow> string" where
  "trim t = rev (dropWhile isSpace (rev (dropWhile isSpace t)))"

text \<open>
  The body of a registration request. A field that is missing or not a string is the empty
  string, which the route rejects in the same way; \<open>q_name\<close> is \<open>None\<close> when the name is
  not a string.
\<close>

record RegisterRequest =
  q_code :: string
  q_handle :: string
  q_password :: string
  q_name :: "string option"

text \<open>
  \<^verbatim>\<open>POST /register\<close>. The password hash \<^verbatim>\<open>getPasswordHash\<close> of \<^verbatim>\<open>users.js\<close> is the parameter
  \<open>hashPw\<close> and the salt of \<^verbatim>\<open>getPasswordSalt()\<close> is \<open>salt\<close>. The response is the handle of
  the new user; \<open>fh\<close> stands for the constant \<^verbatim>\<open>finalHandle\<close> of the route.
\<close>

definition register ::
  "(string \<Rightarrow> string \<Rightarrow> string) \<Rightarrow> string \<Rightarrow> string \<Rightarrow> store \<Rightarrow> RegisterRequest \<Rightarrow> int
     \<Rightarrow> store \<times> (error + string)" where
  "register hashPw salt rndHex s req now =
     (if q_code req = [] then (s, Inl MissingCode)
      else if q_handle req = [] then (s, Inl MissingHandle)
      else if q_password req = [] \<or> length (q_password req) < 6 then (s, Inl WeakPassword)
      else
        (let fh = finalHandle rndHex (q_handle req)
         in if length fh < 3 then (s, Inl HandleTooShort)
            else if fh \<in> set USERNAME_BLACKLIST then (s, Inl HandleBlacklisted)
            else if (\<exists>pattern \<in> set sensitivePatterns. str_includes fh pattern)
              then (s, Inl HandleReserved)
            else
              (let inviteKey = toUpperCase (q_code req)
               in case invites s inviteKey of
                    None \<Rightarrow> (s, Inl CodeNotFound)
                  | Some invite \<Rightarrow>
                      if i_used invite then (s, Inl InviteUsed)
                      else if (case i_expiresAt invite of
                                 None \<Rightarrow> False | Some e \<Rightarrow> e \<noteq> 0 \<and> e < now)
                        then (s, Inl InviteExpired)
                      else
                        (case users s fh of
                           Some exists \<Rightarrow> (s, Inl HandleTaken)
                         | None \<Rightarrow>
                             (let user = \<lparr>u_handle = fh,
                                     u_name = (case q_name req of
                                                 None \<Rightarrow> fh
                                               | Some n \<Rightarrow> if trim n \<noteq> [] then trim n else fh),
                                     u_created = now, u_password = hashPw (q_password req) salt,
                                     u_admin = False, u_enabled = True, u_salt = salt\<rparr>;
                                  s1 = s\<lparr>users := (users s)(fh \<mapsto> user)\<rparr>;
                                  used = invite\<lparr>i_used := True, i_usedBy := Some fh,
                                                i_usedAt := Some now\<rparr>
                              in (s1\<lparr>invites := (invites s1)(inviteKey \<mapsto> used)\<rparr>,
                                  Inr fh))))))"

subsection \<open>User creation after an OAuth login\<close>

definition validateInviteCode :: "store \<Rightarrow> string \<Rightarrow> int \<Rightarrow> bool" where
  "validateInviteCode s code now =
     (if code = [] then False
      else
        (case invites s (toUpperCase code) of
           None \<Rightarrow> False
         | Some invite \<Rightarrow>
             if i_used invite then False
             else if (case i_expiresAt invite of None \<Rightarrow> False | Some e \<Rightarrow> e \<noteq> 0 \<and> e < now)
               then False
             else True))"

definition markInviteCodeAsUsed :: "store \<Rightarrow> string \<Rightarrow> string \<Rightarrow> int \<Rightarrow> store" where
  "markInviteCodeAsUsed s code usedBy now =
     (let inviteKey = toUpperCase code
      in case invites s inviteKey of
           None \<Rightarrow> s
         | Some invite \<Rightarrow>
             s\<lparr>invites := (invites s)(inviteKey \<mapsto>
                  invite\<lparr>i_used := True, i_usedBy := Some usedBy, i_usedAt := Some now\<rparr>)\<rparr>)"

text \<open>
  \<^verbatim>\<open>ensureUser(handle, name, inviteCode)\<close>, up to the creation of the directories; the
  invite code is \<open>None\<close> for \<^verbatim>\<open>null\<close>, and an empty name or code is falsy.
\<close>

definition ensureUser :: "store \<Rightarrow> string \<Rightarrow> string \<Rightarrow> string option \<Rightarrow> int \<Rightarrow> store \<times> (error + unit)" where
  "ensureUser s h name inviteCode now =
     (case users s h of
        Some existing \<Rightarrow> (s, Inr ())
      | None \<Rightarrow>
          (case isRegistrationEnabled s of
             (s0, registrationAllowed) \<Rightarrow>
               (let hasValidInviteCode =
                      (case inviteCode of
                         None \<Rightarrow> False
                       | Some c \<Rightarrow> if c \<noteq> [] then validateInviteCode s0 c now else False)
                in if \<not> registrationAllowed \<and> \<not> hasValidInviteCode
                   then (s0, Inl RegistrationDisabled)
                   else
                     (let user = \<lparr>u_handle = h, u_name = (if name \<noteq> [] then name else h),
                                   u_created = now, u_password = [], u_admin = False,
                                   u_enabled = True, u_salt = []\<rparr>;
                          s1 = s0\<lparr>users := (users s0)(h \<mapsto> user)\<rparr>
                      in if hasValidInviteCode
                         then (case inviteCode of
                                 None \<Rightarrow> (s1, Inr ())
                               | Some c \<Rightarrow> (markInviteCodeAsUsed s1 c h now, Inr ()))
                         else (s1, Inr ())))))"

subsection \<open>Predicates and examples used in the statements\<close>

text \<open>A balance is well formed when it is not negative and a multiple of one half.\<close>

definition isHalfMultiple :: "rat \<Rightarrow> bool" where
  "isHalfMultiple p = (of_int \<lfloor>p * 2\<rfloor> = p * 2)"

definition validPoints :: "rat \<Rightarrow> bool" where
  "validPoints p = (0 \<le> p \<and> isHalfMultiple p)"

text \<open>
  The checks of the registration route on the final handle: at least 3 characters, not
  in the blacklist, no reserved word inside.
\<close>

definition handleAcceptable :: "string \<Rightarrow> bool" where
  "handleAcceptable fh =
     (3 \<le> length fh \<and> fh \<notin> set USERNAME_BLACKLIST \<and>
      \<not> (\<exists>pattern \<in> set sensitivePatterns. str_includes fh pattern))"

text \<open>
  A ledger is idle at \<open>now\<close> when \<^verbatim>\<open>applyDailyCosts\<close> has nothing to do: its accrual mark is
  not in the future, no whole day has elapsed since, and the purge is not due.
\<close>

definition idle :: "int \<Rightarrow> AccountState \<Rightarrow> int \<Rightarrow> bool" where
  "idle tz st now =
     (appliedFrom tz st now \<le> todayMidnight tz now \<and>
      (todayMidnight tz now - appliedFrom tz st now) div MS_PER_DAY \<le> 0 \<and>
      \<not> purgeDue st now)"

text \<open>
  Example data: the ledger of \<open>alice\<close>, whose accrual mark is the midnight (UTC) of day
  20030 after the epoch, and a store that holds this ledger and her identity record.
\<close>

definition exampleLedger :: "rat \<Rightarrow> bool \<Rightarrow> int option \<Rightarrow> AccountState" where
  "exampleLedger p on offSince =
     \<lparr>handle = ''alice'', points = p, accessOn = on, lastCostAppliedAt = 1730592000000,
      lastCheckInDate = None, lastCheckInAt = None, accessOffSince = offSince,
      createdAt = 1728000000000\<rparr>"

definition exampleUser :: User where
  "exampleUser = \<lparr>u_handle = ''alice'', u_name = ''Alice'', u_created = 1728000000000,
     u_password = ''hash'', u_admin = False, u_enabled = True, u_salt = ''salt''\<rparr>"

definition exampleStore :: "AccountState \<Rightarrow> store" where
  "exampleStore st =
     \<lparr>accounts = [''alice'' \<mapsto> st], redeems = Map.empty, invites = Map.empty,
      users = [''alice'' \<mapsto> exampleUser], config = None\<rparr>"

text \<open>A sequence of calls of \<^verbatim>\<open>applyDailyCosts\<close> on the same ledger object, at the given instants.\<close>

fun applyDailyCostsAt :: "int \<Rightarrow> store \<times> AccountState \<Rightarrow> int list \<Rightarrow> store \<times> AccountState" where
  "applyDailyCostsAt tz r [] = r"
| "applyDailyCostsAt tz r (t # ts) = applyDailyCostsAt tz (applyDailyCosts tz (fst r) (snd r) t) ts"

text \<open>The stored account object of \<open>alice\<close>, with the given \<^verbatim>\<open>points\<close>.\<close>

definition exampleAccountData :: "rat option \<Rightarrow> AccountData" where
  "exampleAccountData p =
     \<lparr>d_handle = ''alice'', d_points = p, d_accessOn = False,
      d_lastCostAppliedAt = 1730592000000, d_lastCheckInDate = None, d_lastCheckInAt = None,
      d_accessOffSince = None, d_createdAt = 1728000000000\<rparr>"

section \<open>Auxiliary facts\<close>

subsection \<open>Clock, rounding and the cases of the daily-cost application\<close>

lemma MS_PER_DAY_pos: "0 < MS_PER_DAY"
  by (simp add: MS_PER_DAY_def)

lemma todayMidnight_le: "todayMidnight tz ts \<le> ts"
  using MS_PER_DAY_pos by (simp add: todayMidnight_def)

lemma todayMidnight_gt: "ts - todayMidnight tz ts < MS_PER_DAY"
  using MS_PER_DAY_pos by (simp add: todayMidnight_def)

lemma todayMidnight_idem: "todayMidnight tz (todayMidnight tz ts) = todayMidnight tz ts"
proof -
  have "(ts - (ts - tz * 60000) mod MS_PER_DAY - tz * 60000) = (ts - tz * 60000) - (ts - tz * 60000) mod MS_PER_DAY"
    by simp
  also have "\<dots> mod MS_PER_DAY = 0"
    by (simp add: minus_mod_eq_mult_div)
  finally show ?thesis by (simp add: todayMidnight_def)
qed

lemma Math_round_of_int: "Math_round (of_int k) = k"
  unfolding Math_round_def by linarith

lemma roundHalf_isHalf: "isHalfMultiple (roundHalf x)"
  by (simp add: isHalfMultiple_def roundHalf_def)

lemma isHalf_iff: "isHalfMultiple p \<longleftrightarrow> (\<exists>k. p * 2 = of_int k)"
  by (auto simp: isHalfMultiple_def)

lemma isHalfI: "p * 2 = of_int k \<Longrightarrow> isHalfMultiple p"
  by (auto simp: isHalf_iff)

lemma roundHalf_id: "isHalfMultiple p \<Longrightarrow> roundHalf p = p"
proof -
  assume "isHalfMultiple p"
  then obtain k where e: "p * 2 = of_int k" by (auto simp: isHalf_iff)
  have "Math_round (p * 2) = k"
    using Math_round_of_int[of k] e by simp
  then show ?thesis using e by (simp add: roundHalf_def)
qed

lemma roundHalf_nonneg: "0 \<le> x \<Longrightarrow> 0 \<le> roundHalf x"
  by (simp add: roundHalf_def Math_round_def)

lemma isHalf_of_int: "isHalfMultiple (of_int k)"
  by (rule isHalfI[of _ "2 * k"]) simp


lemma isHalf_diff: "isHalfMultiple a \<Longrightarrow> isHalfMultiple b \<Longrightarrow> isHalfMultiple (a - b)"
proof -
  assume "isHalfMultiple a" and "isHalfMultiple b"
  then obtain k l where "a * 2 = of_int k" "b * 2 = of_int l" by (auto simp: isHalf_iff)
  then have "(a - b) * 2 = of_int (k - l)"
    by (simp add: left_diff_distrib)
  then show ?thesis by (rule isHalfI)
qed

lemma validPoints_0: "validPoints 0"
  by (simp add: validPoints_def isHalfMultiple_def)

lemma validPoints_max_roundHalf: "validPoints (max 0 (roundHalf x))"
  using roundHalf_isHalf[of x] validPoints_0 by (simp add: validPoints_def max_def)

lemma validPoints_roundHalf: "0 \<le> x \<Longrightarrow> validPoints (roundHalf x)"
  by (simp add: validPoints_def roundHalf_isHalf roundHalf_nonneg)

lemma days_after_charge:
  assumes "start \<le> nowMid"
  shows "(nowMid - (start + ((nowMid - start) div MS_PER_DAY) * MS_PER_DAY)) div MS_PER_DAY = 0"
proof -
  have "nowMid - (start + ((nowMid - start) div MS_PER_DAY) * MS_PER_DAY) = (nowMid - start) mod MS_PER_DAY"
    by (simp add: minus_div_mult_eq_mod algebra_simps)
  then show ?thesis using MS_PER_DAY_pos by simp
qed

lemma purgeDue_charged:
  "purgeDue (st\<lparr>points := p, lastCostAppliedAt := l\<rparr>) now = purgeDue st now"
  by (simp add: purgeDue_def)

lemma applyDailyCosts_future:
  "todayMidnight tz now < appliedFrom tz st now \<Longrightarrow>
   applyDailyCosts tz s st now = (s, st\<lparr>lastCostAppliedAt := todayMidnight tz now\<rparr>)"
  by (simp add: applyDailyCosts_def Let_def)

lemma applyDailyCosts_idle:
  assumes "appliedFrom tz st now \<le> todayMidnight tz now"
    and "(todayMidnight tz now - appliedFrom tz st now) div MS_PER_DAY \<le> 0"
    and "\<not> purgeDue st now"
  shows "applyDailyCosts tz s st now = (s, st)"
  using assms by (simp add: applyDailyCosts_def Let_def)

lemma applyDailyCosts_charge:
  assumes "appliedFrom tz st now \<le> todayMidnight tz now"
    and "0 < (todayMidnight tz now - appliedFrom tz st now) div MS_PER_DAY"
    and "\<not> purgeDue st now"
  shows "applyDailyCosts tz s st now =
     (setAccount s (handle st)
        (st\<lparr>points := max 0 (roundHalf (points st -
                     of_int ((todayMidnight tz now - appliedFrom tz st now) div MS_PER_DAY *
                             (if accessOn st then 1 else 0)))),
             lastCostAppliedAt := appliedFrom tz st now +
                     (todayMidnight tz now - appliedFrom tz st now) div MS_PER_DAY * MS_PER_DAY\<rparr>),
      st\<lparr>points := max 0 (roundHalf (points st -
                     of_int ((todayMidnight tz now - appliedFrom tz st now) div MS_PER_DAY *
                             (if accessOn st then 1 else 0)))),
           lastCostAppliedAt := appliedFrom tz st now +
                     (todayMidnight tz now - appliedFrom tz st now) div MS_PER_DAY * MS_PER_DAY\<rparr>)"
  using assms by (simp add: applyDailyCosts_def Let_def purgeDue_charged)

lemma applyDailyCosts_purge:
  assumes "appliedFrom tz st now \<le> todayMidnight tz now"
    and "purgeDue st now"
  shows "applyDailyCosts tz s st now =
     (s\<lparr>accounts := (accounts s)(handle st \<mapsto>
            st\<lparr>points := 0, accessOn := False, lastCheckInDate := None,
                accessOffSince := Some (todayMidnight tz now),
                lastCostAppliedAt := todayMidnight tz now\<rparr>),
         users := (users s)(handle st := None)\<rparr>,
      st\<lparr>points := 0, accessOn := False, lastCheckInDate := None,
          accessOffSince := Some (todayMidnight tz now),
          lastCostAppliedAt := todayMidnight tz now\<rparr>)"
  using assms
  by (simp add: applyDailyCosts_def Let_def purgeDue_charged setAccount_def purgeUserData_def)

lemma idle_noop: "idle tz st now \<Longrightarrow> applyDailyCosts tz s st now = (s, st)"
  by (simp add: idle_def applyDailyCosts_idle)

lemma getOrInitState_existing: "accounts s h = Some st \<Longrightarrow> getOrInitState tz s h now = (s, st)"
  by (simp add: getOrInitState_def)

lemma roundHalf_0: "roundHalf 0 = 0"
  using Math_round_of_int[of 0] by (simp add: roundHalf_def)

lemma max0_roundHalf_valid: "validPoints p \<Longrightarrow> max 0 (roundHalf p) = p"
  by (simp add: validPoints_def roundHalf_id)

lemma roundHalf_minus_days: "validPoints p \<Longrightarrow> roundHalf (p - of_int d) = p - of_int d"
  by (simp add: validPoints_def roundHalf_id isHalf_diff isHalf_of_int)

lemma validPoints_of_int: "0 \<le> k \<Longrightarrow> validPoints (of_int k)"
  by (simp add: validPoints_def isHalf_of_int)

lemma appliedFrom_set: "lastCostAppliedAt st \<noteq> 0 \<Longrightarrow> appliedFrom tz st now = lastCostAppliedAt st"
  by (simp add: appliedFrom_def)

subsection \<open>Repeated calls and the ledger after a purge\<close>

lemma applyDailyCostsAt_idle:
  "\<forall>t \<in> set ts. idle tz st t \<Longrightarrow> applyDailyCostsAt tz (s, st) ts = (s, st)"
  by (induction ts) (simp_all add: idle_noop)

lemma idle_after_apply:
  assumes pos: "0 < lastCostAppliedAt st"
    and le: "lastCostAppliedAt st \<le> todayMidnight tz now"
    and same: "todayMidnight tz t = todayMidnight tz now"
    and cross: "purgeDue st t \<longrightarrow> purgeDue st now"
  shows "idle tz (snd (applyDailyCosts tz s st now)) t"
proof -
  have af: "appliedFrom tz st now = lastCostAppliedAt st"
    using pos by (simp add: appliedFrom_def)
  have le': "appliedFrom tz st now \<le> todayMidnight tz now"
    using le af by simp
  have mpos: "0 < todayMidnight tz now" using pos le by simp
  have nz: "lastCostAppliedAt st \<noteq> 0" using pos by simp
  show ?thesis
  proof (cases "purgeDue st now")
    case True
    have "t - todayMidnight tz now < MS_PER_DAY"
      using todayMidnight_gt[of t tz] same by simp
    then have "\<not> 30 * MS_PER_DAY \<le> t - todayMidnight tz now"
      using MS_PER_DAY_pos by simp
    then show ?thesis
      using mpos same
      by (simp add: applyDailyCosts_purge[OF le' True] idle_def appliedFrom_def purgeDue_def)
  next
    case False
    then have nt: "\<not> purgeDue st t" using cross by simp
    show ?thesis
    proof (cases "0 < (todayMidnight tz now - appliedFrom tz st now) div MS_PER_DAY")
      case True
      have d0: "0 \<le> (todayMidnight tz now - lastCostAppliedAt st) div MS_PER_DAY"
        using True af by simp
      have "0 \<le> (todayMidnight tz now - lastCostAppliedAt st) div MS_PER_DAY * MS_PER_DAY"
        using d0 MS_PER_DAY_pos by simp
      then have p1: "lastCostAppliedAt st + (todayMidnight tz now - lastCostAppliedAt st) div MS_PER_DAY * MS_PER_DAY \<noteq> 0"
        using pos by linarith
      have p2: "lastCostAppliedAt st + (todayMidnight tz now - lastCostAppliedAt st) div MS_PER_DAY * MS_PER_DAY
                  \<le> todayMidnight tz now"
        using MS_PER_DAY_pos
        by (smt (verit) minus_div_mult_eq_mod pos_mod_sign)
      show ?thesis
        using p1 p2 nt days_after_charge[OF le] same nz
        by (simp add: applyDailyCosts_charge[OF le' True False] af idle_def appliedFrom_def purgeDue_charged)
    next
      case False
      then show ?thesis
        using le' nt \<open>\<not> purgeDue st now\<close> same nz
        by (simp add: applyDailyCosts_idle idle_def appliedFrom_def)
    qed
  qed
qed

lemma roundHalf_5: "roundHalf 5 = 5"
  using roundHalf_id[OF isHalf_of_int[of 5]] by simp

lemma idle_after_purge:
  assumes "0 < todayMidnight tz now" and "todayMidnight tz now' = todayMidnight tz now"
  shows "idle tz (st\<lparr>points := 0, accessOn := False, lastCheckInDate := None,
                     accessOffSince := Some (todayMidnight tz now),
                     lastCostAppliedAt := todayMidnight tz now\<rparr>) now'"
proof -
  have "now' - todayMidnight tz now < MS_PER_DAY"
    using todayMidnight_gt[of now' tz] assms(2) by simp
  then have "\<not> 30 * MS_PER_DAY \<le> now' - todayMidnight tz now"
    using MS_PER_DAY_pos by simp
  then show ?thesis
    using assms by (simp add: idle_def appliedFrom_def purgeDue_def)
qed

subsection \<open>Check-in and redemption\<close>











subsection \<open>The retry loop of code creation\<close>

lemma generateRedeemCode_zero: "generateRedeemCode 12 (\<lambda>k. 0) pos = ''AAAAAAAAAAAA''"
  by code_simp

lemma retryCollision_stuck:
  assumes "taken c" and "\<And>p. generateRedeemCode 12 draw p = c" and "attempts \<le> limit"
  shows "retryCollision taken limit draw c attempts pos = (c, limit, pos + 12 * (limit - attempts))"
  using assms(3)
proof (induction "limit - attempts" arbitrary: attempts pos)
  case 0
  then show ?case by simp
next
  case (Suc n)
  then have lt: "attempts < limit" and n: "n = limit - Suc attempts" and le: "Suc attempts \<le> limit"
    by simp_all
  have "retryCollision taken limit draw c attempts pos
          = retryCollision taken limit draw c (Suc attempts) (pos + 12)"
    using lt assms(1,2) by simp
  also have "\<dots> = (c, limit, pos + 12 + 12 * (limit - Suc attempts))"
    by (rule Suc.hyps(1)[OF n le])
  finally show ?case using lt by (simp add: Suc_diff_Suc)
qed

lemma retryCollision_fresh:
  "retryCollision taken limit draw code attempts pos = (c, a, p) \<Longrightarrow> a < limit \<Longrightarrow> \<not> taken c"
proof (induction taken limit draw code attempts pos rule: retryCollision.induct)
  case (1 taken limit draw code attempts pos)
  show ?case
  proof (cases "taken code \<and> attempts < limit")
    case True
    then show ?thesis using 1 by simp
  next
    case False
    then show ?thesis using 1 by auto
  qed
qed

subsection \<open>Rounding to double precision\<close>

text \<open>
  The exponent is the right one, a number that reaches \<open>pow2 1024\<close> rounds to infinity, a number
  with at most 53 significant bits in the range of the doubles is its own rounding, and a
  number rounds to the neighbour that is less than half a spacing away. The examples are
  one tenth, the first integer that is not a double, and the literal \<^verbatim>\<open>1e308\<close>.
\<close>

lemma pow2_powi: "pow2 k = 2 powi k"
  by (simp add: pow2_def power_int_def field_simps)

lemma pow2_pos: "0 < pow2 k"
  by (simp add: pow2_def)

lemma pow2_add: "pow2 (a + b) = pow2 a * pow2 b"
  by (simp add: pow2_powi power_int_add)

lemma pow2_diff: "pow2 (a - b) = pow2 a / pow2 b"
  by (simp add: pow2_powi power_int_diff)

lemma pow2_mono: "a \<le> b \<Longrightarrow> pow2 a \<le> pow2 b"
  by (simp add: pow2_powi power_int_increasing)

lemma pow2_strict_mono: "a < b \<Longrightarrow> pow2 a < pow2 b"
  by (simp add: pow2_powi power_int_strict_increasing)

lemma pow2_less_iff: "pow2 a < pow2 b \<longleftrightarrow> a < b"
  using pow2_strict_mono[of a b] pow2_mono[of b a] by (cases "a < b") auto

lemma pow2_le_iff: "pow2 a \<le> pow2 b \<longleftrightarrow> a \<le> b"
  using pow2_strict_mono[of b a] pow2_mono[of a b] by (cases "a \<le> b") auto

lemma pow2_nat: "0 \<le> k \<Longrightarrow> pow2 k = 2 ^ nat k"
  by (simp add: pow2_def)

lemma bitlen_pow2_bounds:
  assumes "0 < (a::int)"
  shows "pow2 (bitlen a - 1) \<le> of_int a" and "of_int a < pow2 (bitlen a)"
proof -
  have b: "2 ^ nat (bitlen a - 1) \<le> a" "a < 2 ^ nat (bitlen a)"
    using bitlen_bounds[OF assms] by simp_all
  have p: "0 < bitlen a"
    using assms bitlen_nonneg[of a] bitlen_eq_zero_iff[of a] by linarith
  have "(of_int (2 ^ nat (bitlen a - 1)) :: rat) \<le> of_int a"
    using b(1) by (simp only: of_int_le_iff)
  then show "pow2 (bitlen a - 1) \<le> of_int a"
    using p by (simp add: pow2_nat)
  have "(of_int a :: rat) < of_int (2 ^ nat (bitlen a))"
    using b(2) by (simp only: of_int_less_iff)
  then show "of_int a < pow2 (bitlen a)"
    using p by (simp add: pow2_nat)
qed

lemma exponent_bounds:
  assumes "x \<noteq> 0"
  shows "pow2 (exponent x) \<le> \<bar>x\<bar>" and "\<bar>x\<bar> < pow2 (exponent x + 1)"
proof -
  obtain n d where q: "quotient_of x = (n, d)" by (cases "quotient_of x")
  have d: "0 < d" using q by (rule quotient_of_denom_pos)
  have x: "x = of_int n / of_int d" using q by (rule quotient_of_div)
  have n: "n \<noteq> 0" using assms x by auto
  then have a: "0 < \<bar>n\<bar>" by simp
  have ax: "\<bar>x\<bar> = of_int \<bar>n\<bar> / of_int d"
    using d by (simp add: x abs_div)
  define e where "e = bitlen \<bar>n\<bar> - bitlen d"
  have dq: "(0::rat) < of_int d" using d by simp
  have lo: "pow2 (e - 1) < \<bar>x\<bar>"
  proof -
    have "pow2 (e - 1) = pow2 (bitlen \<bar>n\<bar> - 1) / pow2 (bitlen d)"
      by (simp add: e_def pow2_diff[symmetric] algebra_simps)
    also have "\<dots> \<le> of_int \<bar>n\<bar> / pow2 (bitlen d)"
      using bitlen_pow2_bounds(1)[OF a] pow2_pos[of "bitlen d"] by (simp add: divide_right_mono)
    also have "\<dots> < of_int \<bar>n\<bar> / of_int d"
      using bitlen_pow2_bounds(2)[OF d] a dq by (simp add: divide_strict_left_mono pow2_pos)
    finally show ?thesis by (simp add: ax)
  qed
  have hi: "\<bar>x\<bar> < pow2 (e + 1)"
  proof -
    have "\<bar>x\<bar> = of_int \<bar>n\<bar> / of_int d" by (rule ax)
    also have "\<dots> < pow2 (bitlen \<bar>n\<bar>) / of_int d"
      using bitlen_pow2_bounds(2)[OF a] dq by (simp add: divide_strict_right_mono)
    also have "\<dots> \<le> pow2 (bitlen \<bar>n\<bar>) / pow2 (bitlen d - 1)"
      using bitlen_pow2_bounds(1)[OF d] pow2_pos[of "bitlen d - 1"] pow2_pos[of "bitlen \<bar>n\<bar>"]
      by (simp add: divide_left_mono)
    also have "\<dots> = pow2 (e + 1)"
      by (simp add: e_def pow2_diff[symmetric] algebra_simps)
    finally show ?thesis .
  qed
  have ex: "exponent x = (if pow2 e \<le> \<bar>x\<bar> then e else e - 1)"
    by (simp add: exponent_def q e_def Let_def)
  show "pow2 (exponent x) \<le> \<bar>x\<bar>"
    using lo by (simp add: ex)
  show "\<bar>x\<bar> < pow2 (exponent x + 1)"
    using hi by (simp add: ex)
qed

lemma exponent_unique:
  assumes "pow2 e \<le> \<bar>x\<bar>" and "\<bar>x\<bar> < pow2 (e + 1)"
  shows "exponent x = e"
proof -
  have nz: "x \<noteq> 0" using assms(1) pow2_pos[of e] by auto
  have "pow2 e < pow2 (exponent x + 1)"
    using assms(1) exponent_bounds(2)[OF nz] by simp
  moreover have "pow2 (exponent x) < pow2 (e + 1)"
    using assms(2) exponent_bounds(1)[OF nz] by simp
  ultimately show ?thesis by (simp add: pow2_less_iff)
qed

lemma roundEven_ge: "of_int k \<le> r \<Longrightarrow> k \<le> roundEven r"
proof -
  assume "of_int k \<le> r"
  then have "k \<le> \<lfloor>r\<rfloor>" by (simp add: le_floor_iff)
  then show ?thesis by (simp add: roundEven_def Let_def)
qed

lemma roundEven_of_int: "roundEven (of_int k) = k"
  by (simp add: roundEven_def Let_def)

lemma fl_overflow:
  assumes "pow2 1024 \<le> x"
  shows "fl x = PInf"
proof -
  have xp: "0 < x" using assms pow2_pos[of 1024] by simp
  then have nz: "x \<noteq> 0" and ab: "\<bar>x\<bar> = x" by simp_all
  define e where "e = exponent x"
  have "pow2 1024 < pow2 (e + 1)"
    using assms exponent_bounds(2)[OF nz] by (simp add: ab e_def)
  then have e: "1024 \<le> e" by (simp add: pow2_less_iff)
  then have m: "max e (- 1022) = e" by simp
  define ulp where "ulp = pow2 (e - 52)"
  have up: "0 < ulp" by (simp add: ulp_def pow2_pos)
  have "pow2 52 * ulp = pow2 e"
    by (simp add: ulp_def pow2_add[symmetric])
  then have "pow2 52 * ulp \<le> x"
    using exponent_bounds(1)[OF nz] by (simp add: ab e_def)
  then have "pow2 52 \<le> x / ulp"
    using up by (simp add: pos_le_divide_eq)
  then have "of_int (2 ^ 52) \<le> x / ulp"
    by (simp add: pow2_def)
  then have "2 ^ 52 \<le> roundEven (x / ulp)" by (rule roundEven_ge)
  then have "(of_int (2 ^ 52) :: rat) \<le> of_int (roundEven (x / ulp))"
    by (simp only: of_int_le_iff)
  then have "pow2 52 \<le> of_int (roundEven (x / ulp))"
    by (simp add: pow2_def)
  then have "pow2 52 * ulp \<le> of_int (roundEven (x / ulp)) * ulp"
    using up by (simp add: mult_right_mono)
  then have "pow2 e \<le> of_int (roundEven (x / ulp)) * ulp"
    by (simp add: ulp_def pow2_add[symmetric])
  moreover have "pow2 1024 \<le> pow2 e" using e by (simp add: pow2_le_iff)
  ultimately have "pow2 1024 \<le> \<bar>of_int (roundEven (x / ulp)) * ulp\<bar>" by simp
  then show ?thesis
    using nz xp by (simp add: fl_def Let_def e_def[symmetric] m ulp_def[symmetric])
qed

lemma fl_exact:
  assumes m: "\<bar>m\<bar> < 2 ^ 53" and k: "- 1074 \<le> k"
    and r: "\<bar>of_int m * pow2 k\<bar> < pow2 1024"
  shows "fl (of_int m * pow2 k) = Fin (of_int m * pow2 k)"
proof (cases "m = 0")
  case True
  then show ?thesis by (simp add: fl_def)
next
  case False
  define x where "x = of_int m * pow2 k"
  have nz: "x \<noteq> 0" using False pow2_pos[of k] by (simp add: x_def)
  define e where "e = max (exponent x) (- 1022)"
  have "(of_int \<bar>m\<bar> :: rat) < of_int (2 ^ 53)"
    using m by (simp only: of_int_less_iff)
  then have "of_int \<bar>m\<bar> < pow2 53" by (simp add: pow2_def)
  then have "of_int \<bar>m\<bar> * pow2 k < pow2 53 * pow2 k"
    using pow2_pos[of k] by (simp add: mult_strict_right_mono)
  then have "\<bar>x\<bar> < pow2 (53 + k)"
    using pow2_pos[of k] by (simp add: x_def abs_mult pow2_add)
  then have "pow2 (exponent x) < pow2 (53 + k)"
    using exponent_bounds(1)[OF nz] by simp
  then have "exponent x < 53 + k" by (simp add: pow2_less_iff)
  then have j: "0 \<le> k - (e - 52)" using k by (simp add: e_def)
  define ulp where "ulp = pow2 (e - 52)"
  have "pow2 k = pow2 (k - (e - 52)) * ulp"
    by (simp add: ulp_def pow2_add[symmetric])
  then have pk: "pow2 k = of_int (2 ^ nat (k - (e - 52))) * ulp"
    using j by (simp add: pow2_nat)
  have up: "ulp \<noteq> 0" using pow2_pos[of "e - 52"] by (simp add: ulp_def)
  have "x / ulp = of_int (m * 2 ^ nat (k - (e - 52)))"
    using up by (simp add: x_def pk)
  then have "of_int (roundEven (x / ulp)) * ulp = x"
    using up by (simp only: roundEven_of_int) (simp add: x_def pk)
  then show ?thesis
    using nz r
    by (simp add: fl_def Let_def x_def[symmetric] e_def[symmetric] ulp_def[symmetric])
qed

lemma roundEven_near:
  assumes "\<bar>r - of_int k\<bar> < 1 / 2"
  shows "roundEven r = k"
proof -
  have lo: "of_int k - 1 / 2 < r" and hi: "r < of_int k + 1 / 2"
    using assms by linarith+
  show ?thesis
  proof (cases "of_int k \<le> r")
    case True
    have f: "\<lfloor>r\<rfloor> = k"
      using True hi by (intro floor_unique) linarith+
    show ?thesis using hi by (simp add: roundEven_def Let_def f)
  next
    case False
    have "of_int (k - 1) \<le> r" and "r < of_int (k - 1) + 1"
      using False lo by simp_all
    then have f: "\<lfloor>r\<rfloor> = k - 1" by (rule floor_unique)
    have "1 / 2 < r - of_int (k - 1)" using lo by simp
    then show ?thesis by (simp add: roundEven_def Let_def f)
  qed
qed

lemma roundEven_tie: "even k \<Longrightarrow> roundEven (of_int k + 1 / 2) = k"
proof -
  assume e: "even k"
  have f: "\<lfloor>(of_int k :: rat) + 1 / 2\<rfloor> = k"
    by (rule floor_unique) simp_all
  show ?thesis using e by (simp only: roundEven_def Let_def f) simp
qed

lemma fl_round:
  assumes lo: "pow2 e \<le> \<bar>x\<bar>" and hi: "\<bar>x\<bar> < pow2 (e + 1)" and n: "- 1022 \<le> e"
    and r: "roundEven (x / pow2 (e - 52)) = k"
    and fin: "\<bar>of_int k * pow2 (e - 52)\<bar> < pow2 1024"
  shows "fl x = Fin (of_int k * pow2 (e - 52))"
proof -
  have nz: "x \<noteq> 0" using lo pow2_pos[of e] by auto
  have e: "max (exponent x) (- 1022) = e"
    using exponent_unique[OF lo hi] n by simp
  show ?thesis
    using nz fin by (simp add: fl_def Let_def e r)
qed

lemma fl_nearest:
  assumes "pow2 e \<le> \<bar>x\<bar>" and "\<bar>x\<bar> < pow2 (e + 1)" and "- 1022 \<le> e"
    and near: "\<bar>x / pow2 (e - 52) - of_int k\<bar> < 1 / 2"
    and "\<bar>of_int k * pow2 (e - 52)\<bar> < pow2 1024"
  shows "fl x = Fin (of_int k * pow2 (e - 52))"
  using assms(1-3) roundEven_near[OF near] assms(5) by (rule fl_round)

lemma fl_tenth: "fl (1 / 10) = Fin (3602879701896397 / 36028797018963968)"
  using fl_nearest[of "- 4" "1 / 10" 7205759403792794]
  by (simp add: pow2_def)

lemma fl_2_53_plus_1: "fl (2 ^ 53 + 1) = Fin (2 ^ 53)"
proof -
  have "roundEven (of_int (2 ^ 52) + 1 / 2) = 2 ^ 52"
    by (rule roundEven_tie) simp
  then have r: "roundEven ((2 ^ 53 + 1) / pow2 (53 - 52)) = 2 ^ 52"
    by (simp add: pow2_def)
  show ?thesis
    using fl_round[of 53 "2 ^ 53 + 1" "2 ^ 52", OF _ _ _ r]
    by (simp add: pow2_def)
qed

lemma fl_1e308: "fl (10 ^ 308) = Fin (5010420900022432 * pow2 971)"
  using fl_nearest[of 1023 "10 ^ 308" 5010420900022432]
  by (simp add: pow2_def)

lemma fl_1e308_doubled: "fl (5010420900022432 * pow2 971 * 2) = PInf"
  by (rule fl_overflow) (simp add: pow2_def)

lemma fl_20_plus_1e308:
  "fl (20 + 5010420900022432 * pow2 971) = Fin (5010420900022432 * pow2 971)"
  using fl_nearest[of 1023 "20 + 5010420900022432 * pow2 971" 5010420900022432]
  by (simp add: pow2_def)

lemma fl_half_integer:
  assumes "\<bar>k\<bar> < 2 ^ 53"
  shows "fl (of_int k / 2) = Fin (of_int k / 2)"
proof -
  have "\<bar>(of_int k :: rat)\<bar> < of_int (2 ^ 53)"
    using assms by (simp only: of_int_abs[symmetric] of_int_less_iff)
  then have "\<bar>of_int k * pow2 (- 1)\<bar> < pow2 1024"
    by (simp add: pow2_def)
  then show ?thesis
    using fl_exact[OF assms, of "- 1"] by (simp add: pow2_def)
qed

text \<open>
  On amounts of ordinary size the route adds, subtracts with a floor of 0, and refuses a
  negative amount.
\<close>

lemma adminPoints_ordinary_amounts:
  "adminPoints [''alice'' \<mapsto> exampleAccountData (Some 20)] ''alice'' ''add'' (Some (fl (5 / 2)))
     = ([''alice'' \<mapsto> exampleAccountData (Some (45 / 2))], Inr (Some (45 / 2)))"
  "adminPoints [''alice'' \<mapsto> exampleAccountData (Some 20)] ''alice'' ''subtract'' (Some (fl 100))
     = ([''alice'' \<mapsto> exampleAccountData (Some 0)], Inr (Some 0))"
  "adminPoints [''alice'' \<mapsto> exampleAccountData (Some 20)] ''alice'' ''set'' (Some (fl (- 1)))
     = ([''alice'' \<mapsto> exampleAccountData (Some 20)], Inl InvalidAmount)"
proof -
  have h: "fl (5 / 2) = Fin (5 / 2)" "fl (45 / 2) = Fin (45 / 2)" "fl 45 = Fin 45"
    "fl 100 = Fin 100" "fl (- 80) = Fin (- 80)" "fl (- 1) = Fin (- 1)" "fl 0 = Fin 0"
    using fl_half_integer[of 5] fl_half_integer[of 45] fl_half_integer[of 90]
      fl_half_integer[of 200] fl_half_integer[of "- 160"] fl_half_integer[of "- 2"]
      fl_half_integer[of 0]
    by simp_all
  have z: "Math_round 45 = 45" "Math_round 0 = 0"
    using Math_round_of_int[of 45] Math_round_of_int[of 0] by simp_all
  have u: "(exampleAccountData (Some 20))\<lparr>d_points := Some (45 / 2)\<rparr> = exampleAccountData (Some (45 / 2))"
    "(exampleAccountData (Some 20))\<lparr>d_points := Some 0\<rparr> = exampleAccountData (Some 0)"
    "d_points (exampleAccountData (Some 20)) = Some 20"
    by (simp_all add: exampleAccountData_def)
  show "adminPoints [''alice'' \<mapsto> exampleAccountData (Some 20)] ''alice'' ''add'' (Some (fl (5 / 2)))
     = ([''alice'' \<mapsto> exampleAccountData (Some (45 / 2))], Inr (Some (45 / 2)))"
    by (simp add: adminPoints_def h jsLess_def Let_def u orZero_def jsAdd_def jsMul_def
          Math_round_num_def z jsDiv_def toJSON_def)
  show "adminPoints [''alice'' \<mapsto> exampleAccountData (Some 20)] ''alice'' ''subtract'' (Some (fl 100))
     = ([''alice'' \<mapsto> exampleAccountData (Some 0)], Inr (Some 0))"
    by (simp add: adminPoints_def h jsLess_def Let_def u orZero_def jsAdd_def jsSub_def jsNeg_def
          Math_max_def jsMul_def Math_round_num_def z jsDiv_def toJSON_def)
  show "adminPoints [''alice'' \<mapsto> exampleAccountData (Some 20)] ''alice'' ''set'' (Some (fl (- 1)))
     = ([''alice'' \<mapsto> exampleAccountData (Some 20)], Inl InvalidAmount)"
    by (simp add: adminPoints_def h jsLess_def)
qed

subsection \<open>Registration and invite codes\<close>

lemma register_config:
  "register hashPw salt rndHex (s\<lparr>config := c\<rparr>) req now =
     ((fst (register hashPw salt rndHex s req now))\<lparr>config := c\<rparr>,
      snd (register hashPw salt rndHex s req now))"
  by (simp add: register_def Let_def split: option.splits)

lemma unexpired_check:
  "\<forall>e. i_expiresAt ic = Some e \<longrightarrow> now \<le> e \<Longrightarrow>
   (case i_expiresAt ic of None \<Rightarrow> False | Some e \<Rightarrow> e \<noteq> 0 \<and> e < now) = False"
  by (auto split: option.splits)

lemma validateInviteCode_valid:
  "code \<noteq> [] \<Longrightarrow> invites s (toUpperCase code) = Some ic \<Longrightarrow> \<not> i_used ic \<Longrightarrow>
   \<forall>e. i_expiresAt ic = Some e \<longrightarrow> now \<le> e \<Longrightarrow> validateInviteCode s code now"
  by (simp add: validateInviteCode_def unexpired_check)

section \<open>The claims\<close>

text \<open>
  Claim C4 says that switching access on with a balance of 0.5 succeeds and leaves 0. The
  route refuses it: the activation fee of one point requires \<^verbatim>\<open>points >= 1\<close>, so with 0.5 the
  request is rejected and nothing is written.
\<close>

theorem toggle_on_half_point_counterexample:
  "toggle 0 (exampleStore (exampleLedger (1 / 2) False None)) ''alice'' (Some True) 1730635200000
     = (exampleStore (exampleLedger (1 / 2) False None), Inl InsufficientPoints)"
proof -
  have i: "idle 0 (exampleLedger (1 / 2) False None) 1730635200000"
    by (simp add: idle_def exampleLedger_def appliedFrom_def todayMidnight_def MS_PER_DAY_def purgeDue_def)
  show ?thesis
    by (simp add: toggle_def getOrInitState_def exampleStore_def idle_noop[OF i])
       (simp add: exampleLedger_def)
qed

text \<open>
  Claim C4, amended: on a ledger that is off and idle, switching access on succeeds exactly
  when the balance is at least 1, and then deducts one point (a balance of 1 becomes 0);
  with a balance below 1, such as 0.5 or 0, it fails with the insufficient-points error and
  leaves the store unchanged.
\<close>

theorem toggle_on_activation_fee:
  assumes "accounts s h = Some st" and "accessOn st = False" and "idle tz st now"
  shows "(points st < 1 \<longrightarrow> toggle tz s h (Some True) now = (s, Inl InsufficientPoints)) \<and>
         (1 \<le> points st \<longrightarrow> toggle tz s h (Some True) now =
            (setAccount s h (st\<lparr>points := max 0 (roundHalf (points st - 1)), accessOn := True,
                                  accessOffSince := None\<rparr>),
             Inr \<lparr>t_accessOn = True, t_points = max 0 (roundHalf (points st - 1))\<rparr>)) \<and>
         (points st = 1 \<longrightarrow> toggle tz s h (Some True) now =
            (setAccount s h (st\<lparr>points := 0, accessOn := True, accessOffSince := None\<rparr>),
             Inr \<lparr>t_accessOn = True, t_points = 0\<rparr>))"
  using assms
  by (simp add: toggle_def getOrInitState_existing idle_noop roundHalf_0)

theorem toggle_on_activation_fee_witness:
  "toggle 0 (exampleStore (exampleLedger 0 False None)) ''alice'' (Some True) 1730635200000
     = (exampleStore (exampleLedger 0 False None), Inl InsufficientPoints) \<and>
   toggle 0 (exampleStore (exampleLedger 1 False None)) ''alice'' (Some True) 1730635200000
     = (exampleStore (exampleLedger 0 True None), Inr \<lparr>t_accessOn = True, t_points = 0\<rparr>)"
proof -
  have i: "idle 0 (exampleLedger p False None) 1730635200000" for p
    by (simp add: idle_def exampleLedger_def appliedFrom_def todayMidnight_def MS_PER_DAY_def purgeDue_def)
  have a: "accounts (exampleStore st) ''alice'' = Some st" for st
    by (simp add: exampleStore_def)
  have f: "accessOn (exampleLedger p False None) = False" for p
    by (simp add: exampleLedger_def)
  have e: "setAccount (exampleStore (exampleLedger 1 False None)) ''alice''
             (exampleLedger 1 False None\<lparr>points := 0, accessOn := True, accessOffSince := None\<rparr>)
           = exampleStore (exampleLedger 0 True None)"
    by (simp add: setAccount_def exampleStore_def exampleLedger_def)
  show ?thesis
    using toggle_on_activation_fee[OF a f i, of 0] toggle_on_activation_fee[OF a f i, of 1] e
    by (simp add: exampleLedger_def roundHalf_0)
qed

text \<open>
  Claim C2 says that \<^verbatim>\<open>applyDailyCosts\<close> deducts exactly 0 points from every ledger that is
  off. When the ledger has been off for 30 days the same call goes on to the purge, which
  sets the balance to 0: here a ledger that is off with 10 points, 31 days after it was
  switched off, ends with 0 points.
\<close>

theorem purge_zeroes_idle_ledger_counterexample:
  "points (exampleLedger 10 False (Some 1730635200000)) = 10 \<and>
   points (snd (applyDailyCosts 0 (exampleStore (exampleLedger 10 False (Some 1730635200000)))
                  (exampleLedger 10 False (Some 1730635200000)) 1733313600000)) = 0"
proof -
  have a: "appliedFrom 0 (exampleLedger 10 False (Some 1730635200000)) 1733313600000 \<le> todayMidnight 0 1733313600000"
    by (simp add: exampleLedger_def appliedFrom_def todayMidnight_def MS_PER_DAY_def)
  have p: "purgeDue (exampleLedger 10 False (Some 1730635200000)) 1733313600000"
    by (simp add: exampleLedger_def purgeDue_def MS_PER_DAY_def)
  show ?thesis
    by (simp add: applyDailyCosts_purge[OF a p]) (simp add: exampleLedger_def)
qed

text \<open>
  Claim C2, amended: for every ledger whose accrual mark \<^verbatim>\<open>lastCostAppliedAt\<close> is set and not
  after today's midnight, and on which the 30-day purge is not due, with \<open>days\<close> the whole
  days between the mark and today's midnight, \<^verbatim>\<open>applyDailyCosts\<close> advances the mark by exactly
  \<open>days\<close> days and changes no field but the mark and the balance; when a day has elapsed
  the balance becomes \<^verbatim>\<open>max(0, round((points - days * rate) * 2) / 2)\<close> with rate 1 when access
  is on and 0 when it is off, and the ledger is persisted; when no day has elapsed nothing
  changes. On a well-formed balance this deducts exactly \<open>days\<close> points, clamped at 0, when
  access is on, and exactly 0 points when it is off.
\<close>

theorem daily_cost_deduction:
  assumes "lastCostAppliedAt st \<noteq> 0"
    and "lastCostAppliedAt st \<le> todayMidnight tz now"
    and "\<not> purgeDue st now"
  shows "(let days = (todayMidnight tz now - lastCostAppliedAt st) div MS_PER_DAY;
              s' = fst (applyDailyCosts tz s st now);
              st' = snd (applyDailyCosts tz s st now)
          in 0 \<le> days \<and>
             lastCostAppliedAt st' = lastCostAppliedAt st + days * MS_PER_DAY \<and>
             st'\<lparr>points := points st, lastCostAppliedAt := lastCostAppliedAt st\<rparr> = st \<and>
             (0 < days \<longrightarrow>
                points st' = max 0 (roundHalf (points st - (if accessOn st then of_int days else 0))) \<and>
                s' = setAccount s (handle st) st') \<and>
             (days = 0 \<longrightarrow> points st' = points st \<and> s' = s) \<and>
             (validPoints (points st) \<longrightarrow>
                points st' = (if accessOn st then max 0 (points st - of_int days) else points st)))"
proof -
  define days where "days = (todayMidnight tz now - lastCostAppliedAt st) div MS_PER_DAY"
  have af: "appliedFrom tz st now = lastCostAppliedAt st"
    using assms(1) by (rule appliedFrom_set)
  have le: "appliedFrom tz st now \<le> todayMidnight tz now"
    using assms(2) af by simp
  have d0: "0 \<le> days"
    using assms(2) MS_PER_DAY_pos by (simp add: days_def pos_imp_zdiv_nonneg_iff)
  show ?thesis
  proof (cases "0 < days")
    case True
    then have pos: "0 < (todayMidnight tz now - appliedFrom tz st now) div MS_PER_DAY"
      by (simp add: days_def af)
    show ?thesis
      using True d0 applyDailyCosts_charge[OF le pos assms(3), of s]
      by (simp add: Let_def af days_def[symmetric] max0_roundHalf_valid roundHalf_minus_days)
  next
    case False
    then have z: "days = 0" using d0 by simp
    then have "(todayMidnight tz now - appliedFrom tz st now) div MS_PER_DAY \<le> 0"
      by (simp add: days_def af)
    from applyDailyCosts_idle[OF le this assms(3), of s] z
    show ?thesis
      by (simp add: Let_def days_def[symmetric] validPoints_def)
  qed
qed

theorem daily_cost_deduction_witness:
  "points (snd (applyDailyCosts 0 (exampleStore (exampleLedger 20 True None))
                  (exampleLedger 20 True None) 1730894400000)) = 17 \<and>
   lastCostAppliedAt (snd (applyDailyCosts 0 (exampleStore (exampleLedger 20 True None))
                  (exampleLedger 20 True None) 1730894400000)) = 1730851200000 \<and>
   points (snd (applyDailyCosts 0 (exampleStore (exampleLedger 20 False None))
                  (exampleLedger 20 False None) 1730894400000)) = 20 \<and>
   points (snd (applyDailyCosts 0 (exampleStore (exampleLedger 2 True None))
                  (exampleLedger 2 True None) 1730894400000)) = 0 \<and>
   fst (applyDailyCosts 0 (exampleStore (exampleLedger 20 True None))
                  (exampleLedger 20 True None) 1730635200000)
     = exampleStore (exampleLedger 20 True None)"
proof -
  have l: "lastCostAppliedAt (exampleLedger p on None) \<noteq> 0" for p on
    by (simp add: exampleLedger_def)
  have m: "lastCostAppliedAt (exampleLedger p on None) \<le> todayMidnight 0 1730894400000" for p on
    by (simp add: exampleLedger_def todayMidnight_def MS_PER_DAY_def)
  have m0: "lastCostAppliedAt (exampleLedger p on None) \<le> todayMidnight 0 1730635200000" for p on
    by (simp add: exampleLedger_def todayMidnight_def MS_PER_DAY_def)
  have n: "\<not> purgeDue (exampleLedger p on None) t" for p on t
    by (simp add: exampleLedger_def purgeDue_def)
  have d: "(todayMidnight 0 1730894400000 - lastCostAppliedAt (exampleLedger p on None)) div MS_PER_DAY = 3" for p on
    by (simp add: exampleLedger_def todayMidnight_def MS_PER_DAY_def)
  have d0: "(todayMidnight 0 1730635200000 - lastCostAppliedAt (exampleLedger p on None)) div MS_PER_DAY = 0" for p on
    by (simp add: exampleLedger_def todayMidnight_def MS_PER_DAY_def)
  have v20: "validPoints (points (exampleLedger 20 on None))" for on
    using validPoints_of_int[of 20] by (simp add: exampleLedger_def)
  have v2: "validPoints (points (exampleLedger 2 on None))" for on
    using validPoints_of_int[of 2] by (simp add: exampleLedger_def)
  have p: "points (exampleLedger q on None) = q" "accessOn (exampleLedger q on None) = on"
    "lastCostAppliedAt (exampleLedger q on None) = 1730592000000" for q on
    by (simp_all add: exampleLedger_def)
  have r1: "points (snd (applyDailyCosts 0 (exampleStore (exampleLedger 20 True None))
                  (exampleLedger 20 True None) 1730894400000)) = 17 \<and>
            lastCostAppliedAt (snd (applyDailyCosts 0 (exampleStore (exampleLedger 20 True None))
                  (exampleLedger 20 True None) 1730894400000)) = 1730851200000"
    using daily_cost_deduction[OF l m n, of 20 True "exampleStore (exampleLedger 20 True None)"] v20[of True]
    by (simp add: Let_def p todayMidnight_def MS_PER_DAY_def)
  have r2: "points (snd (applyDailyCosts 0 (exampleStore (exampleLedger 20 False None))
                  (exampleLedger 20 False None) 1730894400000)) = 20"
    using daily_cost_deduction[OF l m n, of 20 False "exampleStore (exampleLedger 20 False None)"] v20[of False]
    by (simp add: Let_def p todayMidnight_def MS_PER_DAY_def)
  have r3: "points (snd (applyDailyCosts 0 (exampleStore (exampleLedger 2 True None))
                  (exampleLedger 2 True None) 1730894400000)) = 0"
    using daily_cost_deduction[OF l m n, of 2 True "exampleStore (exampleLedger 2 True None)"] v2[of True]
    by (simp add: Let_def p todayMidnight_def MS_PER_DAY_def)
  have r4: "fst (applyDailyCosts 0 (exampleStore (exampleLedger 20 True None))
                  (exampleLedger 20 True None) 1730635200000)
     = exampleStore (exampleLedger 20 True None)"
    using daily_cost_deduction[OF l m0 n, of 20 True "exampleStore (exampleLedger 20 True None)"]
    by (simp add: Let_def p todayMidnight_def MS_PER_DAY_def)
  show ?thesis using r1 r2 r3 r4 by simp
qed

text \<open>
  Claim C3 says that repeated calls of \<^verbatim>\<open>applyDailyCosts\<close> with no day boundary between them
  leave the ledger as the first call left it. The purge is measured in milliseconds from
  \<^verbatim>\<open>accessOffSince\<close>, not in days: a ledger switched off at noon is untouched by a call one
  millisecond before noon of the thirtieth day and purged by a call at noon of the same
  day. And on a ledger whose accrual mark lies after today's midnight the first call only
  moves the mark back and returns, and the second call, at the same instant, purges.
\<close>

theorem purge_threshold_within_day_counterexample:
  "todayMidnight 0 1730635200000 = todayMidnight 0 1730635199999 \<and>
   applyDailyCostsAt 0
      (applyDailyCosts 0 (exampleStore (exampleLedger 10 False (Some 1728043200000)))
         (exampleLedger 10 False (Some 1728043200000)) 1730635199999)
      [1730635200000]
     \<noteq> applyDailyCosts 0 (exampleStore (exampleLedger 10 False (Some 1728043200000)))
         (exampleLedger 10 False (Some 1728043200000)) 1730635199999 \<and>
   applyDailyCostsAt 0
      (applyDailyCosts 0 (exampleStore (exampleLedger 10 False (Some 1727000000000)))
         (exampleLedger 10 False (Some 1727000000000)) 1730500000000)
      [1730500000000]
     \<noteq> applyDailyCosts 0 (exampleStore (exampleLedger 10 False (Some 1727000000000)))
         (exampleLedger 10 False (Some 1727000000000)) 1730500000000"
proof -
  have first:
    "todayMidnight 0 1730635200000 = todayMidnight 0 1730635199999 \<and>
   applyDailyCostsAt 0
      (applyDailyCosts 0 (exampleStore (exampleLedger 10 False (Some 1728043200000)))
         (exampleLedger 10 False (Some 1728043200000)) 1730635199999)
      [1730635200000]
     \<noteq> applyDailyCosts 0 (exampleStore (exampleLedger 10 False (Some 1728043200000)))
         (exampleLedger 10 False (Some 1728043200000)) 1730635199999"
  proof -
    have i: "idle 0 (exampleLedger 10 False (Some 1728043200000)) 1730635199999"
      by (simp add: idle_def exampleLedger_def appliedFrom_def todayMidnight_def MS_PER_DAY_def purgeDue_def)
    have a: "appliedFrom 0 (exampleLedger 10 False (Some 1728043200000)) 1730635200000
               \<le> todayMidnight 0 1730635200000"
      by (simp add: exampleLedger_def appliedFrom_def todayMidnight_def MS_PER_DAY_def)
    have p: "purgeDue (exampleLedger 10 False (Some 1728043200000)) 1730635200000"
      by (simp add: exampleLedger_def purgeDue_def MS_PER_DAY_def)
    have m: "todayMidnight 0 1730635200000 = todayMidnight 0 1730635199999"
      by (simp add: todayMidnight_def MS_PER_DAY_def)
    have "points (snd (applyDailyCosts 0 (exampleStore (exampleLedger 10 False (Some 1728043200000)))
           (exampleLedger 10 False (Some 1728043200000)) 1730635200000)) = 0"
      by (simp add: applyDailyCosts_purge[OF a p])
    moreover have "points (exampleLedger 10 False (Some 1728043200000)) = 10"
      by (simp add: exampleLedger_def)
    ultimately have "applyDailyCosts 0 (exampleStore (exampleLedger 10 False (Some 1728043200000)))
           (exampleLedger 10 False (Some 1728043200000)) 1730635200000
         \<noteq> (exampleStore (exampleLedger 10 False (Some 1728043200000)),
              exampleLedger 10 False (Some 1728043200000))"
      by (metis snd_conv zero_neq_numeral)
    then show ?thesis using m by (simp add: idle_noop[OF i])
  qed
  have second:
    "applyDailyCostsAt 0
      (applyDailyCosts 0 (exampleStore (exampleLedger 10 False (Some 1727000000000)))
         (exampleLedger 10 False (Some 1727000000000)) 1730500000000)
      [1730500000000]
     \<noteq> applyDailyCosts 0 (exampleStore (exampleLedger 10 False (Some 1727000000000)))
         (exampleLedger 10 False (Some 1727000000000)) 1730500000000"
  proof -
    let ?L = "exampleLedger 10 False (Some 1727000000000)"
    have f: "todayMidnight 0 1730500000000 < appliedFrom 0 ?L 1730500000000"
      by (simp add: exampleLedger_def appliedFrom_def todayMidnight_def MS_PER_DAY_def)
    have a: "appliedFrom 0 (?L\<lparr>lastCostAppliedAt := todayMidnight 0 1730500000000\<rparr>) 1730500000000
               \<le> todayMidnight 0 1730500000000"
      by (simp add: exampleLedger_def appliedFrom_def todayMidnight_def MS_PER_DAY_def)
    have p: "purgeDue (?L\<lparr>lastCostAppliedAt := todayMidnight 0 1730500000000\<rparr>) 1730500000000"
      by (simp add: exampleLedger_def purgeDue_def MS_PER_DAY_def)
    have "points (snd (applyDailyCosts 0 (exampleStore ?L)
             (?L\<lparr>lastCostAppliedAt := todayMidnight 0 1730500000000\<rparr>) 1730500000000)) = 0"
      by (simp add: applyDailyCosts_purge[OF a p])
    moreover have "points (?L\<lparr>lastCostAppliedAt := todayMidnight 0 1730500000000\<rparr>) = 10"
      by (simp add: exampleLedger_def)
    ultimately have "applyDailyCosts 0 (exampleStore ?L)
             (?L\<lparr>lastCostAppliedAt := todayMidnight 0 1730500000000\<rparr>) 1730500000000
           \<noteq> (exampleStore ?L, ?L\<lparr>lastCostAppliedAt := todayMidnight 0 1730500000000\<rparr>)"
      by (metis snd_conv zero_neq_numeral)
    then show ?thesis by (simp add: applyDailyCosts_future[OF f])
  qed
  show ?thesis using first second by blast
qed

text \<open>
  Claim C3, amended: for every ledger whose accrual mark \<^verbatim>\<open>lastCostAppliedAt\<close> is a positive
  instant not after today's midnight, after a first call of \<^verbatim>\<open>applyDailyCosts\<close> any number of
  further calls on the same day change neither the ledger nor the store, provided the
  30-day purge does not fall due between the first call and a later one.
\<close>

theorem applyDailyCosts_idempotent:
  assumes "0 < lastCostAppliedAt st"
    and "lastCostAppliedAt st \<le> todayMidnight tz now"
    and "\<forall>t \<in> set ts. todayMidnight tz t = todayMidnight tz now \<and> (purgeDue st t \<longrightarrow> purgeDue st now)"
  shows "applyDailyCostsAt tz (applyDailyCosts tz s st now) ts = applyDailyCosts tz s st now"
proof -
  have "\<forall>t \<in> set ts. idle tz (snd (applyDailyCosts tz s st now)) t"
    using assms idle_after_apply by blast
  from applyDailyCostsAt_idle[OF this, of "fst (applyDailyCosts tz s st now)"]
  show ?thesis by simp
qed

theorem applyDailyCosts_idempotent_witness:
  "applyDailyCostsAt 0
      (applyDailyCosts 0 (exampleStore (exampleLedger 20 True None)) (exampleLedger 20 True None)
         1730894400000)
      [1730894400001, 1730900000000]
     = applyDailyCosts 0 (exampleStore (exampleLedger 20 True None)) (exampleLedger 20 True None)
         1730894400000"
proof -
  have l: "0 < lastCostAppliedAt (exampleLedger 20 True None)"
    by (simp add: exampleLedger_def)
  have m: "lastCostAppliedAt (exampleLedger 20 True None) \<le> todayMidnight 0 1730894400000"
    by (simp add: exampleLedger_def todayMidnight_def MS_PER_DAY_def)
  have q: "\<forall>t \<in> set [1730894400001, 1730900000000].
             todayMidnight 0 t = todayMidnight 0 1730894400000 \<and>
             (purgeDue (exampleLedger 20 True None) t \<longrightarrow>
              purgeDue (exampleLedger 20 True None) 1730894400000)"
    by (simp add: exampleLedger_def todayMidnight_def MS_PER_DAY_def purgeDue_def)
  show ?thesis
    using applyDailyCosts_idempotent[OF l m q] .
qed

text \<open>
  Claim C1 says that every operation that applies daily costs leaves a ledger that has been
  off for 30 days persisted with 0 points and its check-in timestamp cleared. The check-in
  route goes on after the purge: it credits 5 points to the zeroed ledger and records the
  check-in instant, so the persisted ledger has 5 points and \<^verbatim>\<open>lastCheckInAt = now\<close>. And
  a ledger whose accrual mark lies after today's midnight is not purged at all, since
  \<^verbatim>\<open>applyDailyCosts\<close> returns before the purge: a status check on such a ledger, off for
  more than 30 days, leaves the store with its 10 points and its identity record.
\<close>

theorem checkin_after_purge_counterexample:
  "map_option points
     (accounts (fst (checkin 0 (exampleStore (exampleLedger 10 False (Some 1730635200000)))
                       ''alice'' 1733313600000)) ''alice'') = Some 5 \<and>
   map_option lastCheckInAt
     (accounts (fst (checkin 0 (exampleStore (exampleLedger 10 False (Some 1730635200000)))
                       ''alice'' 1733313600000)) ''alice'') = Some (Some 1733313600000) \<and>
   fst (buildStatus 0 (exampleStore (exampleLedger 10 False (Some 1727000000000))) ''alice''
          1730500000000)
     = exampleStore (exampleLedger 10 False (Some 1727000000000))"
proof -
  have first:
    "map_option points
     (accounts (fst (checkin 0 (exampleStore (exampleLedger 10 False (Some 1730635200000)))
                       ''alice'' 1733313600000)) ''alice'') = Some 5 \<and>
   map_option lastCheckInAt
     (accounts (fst (checkin 0 (exampleStore (exampleLedger 10 False (Some 1730635200000)))
                       ''alice'' 1733313600000)) ''alice'') = Some (Some 1733313600000)"
  proof -
    have a: "appliedFrom 0 (exampleLedger 10 False (Some 1730635200000)) 1733313600000
               \<le> todayMidnight 0 1733313600000"
      by (simp add: exampleLedger_def appliedFrom_def todayMidnight_def MS_PER_DAY_def)
    have p: "purgeDue (exampleLedger 10 False (Some 1730635200000)) 1733313600000"
      by (simp add: exampleLedger_def purgeDue_def MS_PER_DAY_def)
    have g: "getOrInitState 0 (exampleStore (exampleLedger 10 False (Some 1730635200000))) ''alice''
               1733313600000
             = (exampleStore (exampleLedger 10 False (Some 1730635200000)),
                exampleLedger 10 False (Some 1730635200000))"
      by (simp add: getOrInitState_def exampleStore_def)
    have m: "migratedLastCheckInAt
               (exampleLedger 10 False (Some 1730635200000)
                  \<lparr>points := 0, accessOn := False, lastCheckInDate := None,
                     accessOffSince := Some (todayMidnight 0 1733313600000),
                     lastCostAppliedAt := todayMidnight 0 1733313600000\<rparr>) = None"
      by (simp add: migratedLastCheckInAt_def exampleLedger_def)
    show ?thesis
      by (simp add: checkin_def g applyDailyCosts_purge[OF a p] m Let_def setAccount_def roundHalf_5)
  qed
  have second:
    "fst (buildStatus 0 (exampleStore (exampleLedger 10 False (Some 1727000000000))) ''alice''
          1730500000000)
     = exampleStore (exampleLedger 10 False (Some 1727000000000))"
  proof -
    have f: "todayMidnight 0 1730500000000
               < appliedFrom 0 (exampleLedger 10 False (Some 1727000000000)) 1730500000000"
      by (simp add: exampleLedger_def appliedFrom_def todayMidnight_def MS_PER_DAY_def)
    have g: "getOrInitState 0 (exampleStore (exampleLedger 10 False (Some 1727000000000))) ''alice''
               1730500000000
             = (exampleStore (exampleLedger 10 False (Some 1727000000000)),
                exampleLedger 10 False (Some 1727000000000))"
      by (simp add: getOrInitState_def exampleStore_def)
    show ?thesis
      by (simp add: buildStatus_def g applyDailyCosts_future[OF f] Let_def)
  qed
  show ?thesis using first second by blast
qed

text \<open>
  Claim C1, amended: for every stored ledger with \<^verbatim>\<open>accessOn = false\<close>, \<^verbatim>\<open>accessOffSince\<close> set to
  a non-zero instant at least 30 days before \<open>now\<close>, and \<^verbatim>\<open>lastCostAppliedAt\<close> a positive
  instant not after today's midnight, \<^verbatim>\<open>applyDailyCosts\<close> removes the identity record and
  persists the ledger it returns, which has \<^verbatim>\<open>points = 0\<close>, \<^verbatim>\<open>accessOn = false\<close>,
  \<^verbatim>\<open>accessOffSince = lastCostAppliedAt = todayMidnight(now)\<close>, the check-in date
  \<^verbatim>\<open>lastCheckInDate\<close> cleared, and its handle and creation instant kept; what the field
  \<^verbatim>\<open>lastCheckInAt\<close> holds after the purge is left open. The status check and
  \<^verbatim>\<open>getEffectiveAccess\<close> leave exactly this store (the status reports the purge, the gate
  denies with \<^verbatim>\<open>OFF\<close>), and so does the toggle: switching on is refused for lack of points
  and switching off changes nothing. The redemption of an unused code purges in the same
  way and then credits the zeroed ledger, which ends with the code's points rounded to one
  half. The check-in of a user with no check-in instant on record, or with one that is at
  least 24 hours old, purges in the same way and then credits the zeroed ledger, which
  ends with 5 points and the check-in instant recorded; a check-in less than 24 hours
  after the last one is left open. A status check later on the same day does not purge
  again: the purge is not due, the store is unchanged and the status does not report a
  purge.
\<close>

theorem purge_after_thirty_days_off:
  assumes acc: "accounts s h = Some st" and hd: "handle st = h"
    and off: "accessOn st = False" and since: "accessOffSince st = Some since" and nz: "since \<noteq> 0"
    and due: "30 * MS_PER_DAY \<le> now - since"
    and pos: "0 < lastCostAppliedAt st" and le: "lastCostAppliedAt st \<le> todayMidnight tz now"
  shows "(let s' = fst (applyDailyCosts tz s st now);
              r = snd (applyDailyCosts tz s st now)
          in points r = 0 \<and> accessOn r = False \<and>
             accessOffSince r = Some (todayMidnight tz now) \<and>
             lastCostAppliedAt r = todayMidnight tz now \<and>
             lastCheckInDate r = None \<and> handle r = h \<and> createdAt r = createdAt st \<and>
             s' = s\<lparr>accounts := (accounts s)(h \<mapsto> r), users := (users s)(h := None)\<rparr> \<and>
             fst (buildStatus tz s h now) = s' \<and>
             s_purged (snd (buildStatus tz s h now)) \<and>
             getEffectiveAccess tz s (Some h) now = (s', Some OFF) \<and>
             toggle tz s h (Some True) now = (s', Inl InsufficientPoints) \<and>
             toggle tz s h (Some False) now = (s', Inr \<lparr>t_accessOn = False, t_points = 0\<rparr>) \<and>
             (lastCheckInAt st = None \<or> (\<exists>t. lastCheckInAt st = Some t \<and> COOLDOWN_MS \<le> now - t) \<longrightarrow>
                fst (checkin tz s h now) =
                  setAccount s' h
                    (r\<lparr>points := 5, lastCheckInAt := Some now,
                       lastCheckInDate := toDateString tz now\<rparr>)) \<and>
             (\<forall>code rc. code \<noteq> [] \<and> redeems s (toRedeemCodeKey code) = Some rc \<and> \<not> r_used rc \<longrightarrow>
                fst (redeem tz s h code now) =
                  setAccount
                    (s'\<lparr>redeems := (redeems s)(toRedeemCodeKey code \<mapsto>
                           rc\<lparr>r_used := True, r_usedBy := Some h, r_usedAt := Some now\<rparr>)\<rparr>)
                    h (r\<lparr>points := roundHalf (r_points rc)\<rparr>)) \<and>
             (\<forall>now'. todayMidnight tz now' = todayMidnight tz now \<longrightarrow>
                \<not> purgeDue r now' \<and>
                fst (buildStatus tz s' h now') = s' \<and>
                \<not> s_purged (snd (buildStatus tz s' h now'))))"
proof -
  define reset where "reset = st\<lparr>points := 0, accessOn := False, lastCheckInDate := None,
                        accessOffSince := Some (todayMidnight tz now),
                        lastCostAppliedAt := todayMidnight tz now\<rparr>"
  define purged where "purged = s\<lparr>accounts := (accounts s)(h \<mapsto> reset), users := (users s)(h := None)\<rparr>"
  have af: "appliedFrom tz st now \<le> todayMidnight tz now"
    using pos le by (simp add: appliedFrom_def)
  have pd: "purgeDue st now"
    using off since nz due by (simp add: purgeDue_def)
  have ap: "applyDailyCosts tz s' st now =
      (s'\<lparr>accounts := (accounts s')(h \<mapsto> reset), users := (users s')(h := None)\<rparr>, reset)" for s'
    using applyDailyCosts_purge[OF af pd, of s'] hd by (simp add: reset_def)
  have ap0: "applyDailyCosts tz s st now = (purged, reset)"
    using ap[of s] by (simp add: purged_def)
  have g: "getOrInitState tz s h now = (s, st)"
    using acc by (rule getOrInitState_existing)
  have r_off: "accessOn reset = False" and r_pts: "points reset = 0"
    and r_since: "accessOffSince reset = Some (todayMidnight tz now)"
    and r_mig: "migratedLastCheckInAt reset = lastCheckInAt st"
    by (simp_all add: reset_def migratedLastCheckInAt_def split: option.splits)
  have f: "points reset = 0 \<and> accessOn reset = False \<and>
             accessOffSince reset = Some (todayMidnight tz now) \<and>
             lastCostAppliedAt reset = todayMidnight tz now \<and>
             lastCheckInDate reset = None \<and> handle reset = h \<and> createdAt reset = createdAt st"
    using hd by (simp add: reset_def)
  have c2: "fst (buildStatus tz s h now) = purged"
    by (simp add: buildStatus_def g ap0 Let_def)
  have c3: "s_purged (snd (buildStatus tz s h now))"
    using since nz due by (simp add: buildStatus_def g ap0 Let_def r_off)
  have c4: "getEffectiveAccess tz s (Some h) now = (purged, Some OFF)"
    by (simp add: getEffectiveAccess_def g ap0 r_off)
  have c5: "toggle tz s h (Some True) now = (purged, Inl InsufficientPoints)"
    by (simp add: toggle_def g ap0 r_off r_pts)
  have c6: "toggle tz s h (Some False) now = (purged, Inr \<lparr>t_accessOn = False, t_points = 0\<rparr>)"
    by (simp add: toggle_def g ap0 r_off r_pts)
  have c7: "fst (checkin tz s h now) =
               setAccount purged h
                       (reset\<lparr>points := 5, lastCheckInAt := Some now,
                              lastCheckInDate := toDateString tz now\<rparr>)"
    if "lastCheckInAt st = None \<or> (\<exists>t. lastCheckInAt st = Some t \<and> COOLDOWN_MS \<le> now - t)"
    using that
    by (auto simp: checkin_def g ap0 r_mig r_pts Let_def roundHalf_5)
  have c8: "fst (redeem tz s h code now) =
                  setAccount
                    (purged\<lparr>redeems := (redeems s)(toRedeemCodeKey code \<mapsto>
                               rc\<lparr>r_used := True, r_usedBy := Some h, r_usedAt := Some now\<rparr>)\<rparr>)
                    h (reset\<lparr>points := roundHalf (r_points rc)\<rparr>)"
    if "code \<noteq> []" "redeems s (toRedeemCodeKey code) = Some rc" "\<not> r_used rc" for code rc
    using that acc
    by (simp add: redeem_def Let_def getOrInitState_def ap r_pts purged_def setAccount_def)
  have mpos: "0 < todayMidnight tz now" using pos le by simp
  have c9: "\<not> purgeDue reset now' \<and>
                fst (buildStatus tz purged h now') = purged \<and>
                \<not> s_purged (snd (buildStatus tz purged h now'))"
    if same: "todayMidnight tz now' = todayMidnight tz now" for now'
  proof -
    have i: "idle tz reset now'"
      unfolding reset_def using mpos same by (rule idle_after_purge)
    have g': "getOrInitState tz purged h now' = (purged, reset)"
      by (simp add: getOrInitState_def purged_def)
    have "now' - todayMidnight tz now < MS_PER_DAY"
      using todayMidnight_gt[of now' tz] same by simp
    then have nd: "\<not> 30 * MS_PER_DAY \<le> now' - todayMidnight tz now"
      using MS_PER_DAY_pos by simp
    show ?thesis
      using i nd by (simp add: idle_def buildStatus_def g' idle_noop[OF i] Let_def r_since)
  qed
  have p: "purged = s\<lparr>accounts := (accounts s)(h \<mapsto> reset), users := (users s)(h := None)\<rparr>"
    by (simp add: purged_def)
  show ?thesis
    unfolding Let_def ap0 fst_conv snd_conv
    using f p c2 c3 c4 c5 c6 c7 c8 c9 by blast
qed

theorem purge_after_thirty_days_off_witness:
  "fst (buildStatus 0 (exampleStore (exampleLedger 10 False (Some 1730635200000))) ''alice''
          1733313600000)
     = (exampleStore ((exampleLedger 0 False (Some 1733270400000))
                        \<lparr>lastCostAppliedAt := 1733270400000\<rparr>))\<lparr>users := Map.empty\<rparr> \<and>
   s_purged (snd (buildStatus 0 (exampleStore (exampleLedger 10 False (Some 1730635200000)))
                    ''alice'' 1733313600000)) \<and>
   toggle 0 (exampleStore (exampleLedger 10 False (Some 1730635200000))) ''alice'' (Some True)
          1733313600000
     = ((exampleStore ((exampleLedger 0 False (Some 1733270400000))
                        \<lparr>lastCostAppliedAt := 1733270400000\<rparr>))\<lparr>users := Map.empty\<rparr>,
        Inl InsufficientPoints) \<and>
   fst (checkin 0 (exampleStore (exampleLedger 10 False (Some 1730635200000))) ''alice''
          1733313600000)
     = (exampleStore ((exampleLedger 5 False (Some 1733270400000))
                        \<lparr>lastCostAppliedAt := 1733270400000,
                         lastCheckInAt := Some 1733313600000,
                         lastCheckInDate := Some 20061\<rparr>))\<lparr>users := Map.empty\<rparr> \<and>
   fst (redeem 0
          ((exampleStore (exampleLedger 10 False (Some 1730635200000)))
             \<lparr>redeems := [''GIFT'' \<mapsto> \<lparr>r_code = ''GIFT'', r_points = 7, r_used = False,
                                      r_usedBy = None, r_createdAt = 0, r_usedAt = None\<rparr>]\<rparr>)
          ''alice'' ''gift'' 1733313600000)
     = (exampleStore ((exampleLedger 7 False (Some 1733270400000))
                        \<lparr>lastCostAppliedAt := 1733270400000\<rparr>))
         \<lparr>users := Map.empty,
          redeems := [''GIFT'' \<mapsto> \<lparr>r_code = ''GIFT'', r_points = 7, r_used = True,
                                   r_usedBy = Some ''alice'', r_createdAt = 0,
                                   r_usedAt = Some 1733313600000\<rparr>]\<rparr> \<and>
   \<not> s_purged (snd (buildStatus 0
          ((exampleStore ((exampleLedger 0 False (Some 1733270400000))
                        \<lparr>lastCostAppliedAt := 1733270400000\<rparr>))\<lparr>users := Map.empty\<rparr>)
          ''alice'' 1733313600001))"
proof -
  let ?L = "exampleLedger 10 False (Some 1730635200000)"
  let ?rc = "\<lparr>r_code = ''GIFT'', r_points = 7, r_used = False,
               r_usedBy = None, r_createdAt = 0, r_usedAt = None\<rparr>"
  let ?S = "(exampleStore ?L)\<lparr>redeems := [''GIFT'' \<mapsto> ?rc]\<rparr>"
  let ?R = "(exampleLedger 0 False (Some 1733270400000))\<lparr>lastCostAppliedAt := 1733270400000\<rparr>"
  have hd: "handle ?L = ''alice''" and off: "accessOn ?L = False"
    and since: "accessOffSince ?L = Some 1730635200000"
    and pos: "0 < lastCostAppliedAt ?L"
    and le: "lastCostAppliedAt ?L \<le> todayMidnight 0 1733313600000"
    and due: "30 * MS_PER_DAY \<le> 1733313600000 - 1730635200000"
    and fresh: "lastCheckInAt ?L = None"
    by (simp_all add: exampleLedger_def todayMidnight_def MS_PER_DAY_def)
  have nz: "(1730635200000::int) \<noteq> 0" by simp
  have acc1: "accounts (exampleStore ?L) ''alice'' = Some ?L"
    by (simp add: exampleStore_def)
  have acc2: "accounts ?S ''alice'' = Some ?L"
    by (simp add: exampleStore_def)
  have tm: "todayMidnight 0 1733313600000 = 1733270400000"
    "todayMidnight 0 1733313600001 = 1733270400000"
    by (simp_all add: todayMidnight_def MS_PER_DAY_def)
  have ds: "toDateString 0 1733313600000 = Some 20061"
    by (simp add: toDateString_def MS_PER_DAY_def)
  have k: "toRedeemCodeKey ''gift'' = ''GIFT''"
    by (simp add: toRedeemCodeKey_def toUpperCase_def upperChar_def)
  have r7: "roundHalf 7 = 7"
    using roundHalf_id[OF isHalf_of_int[of 7]] by simp
  have af: "appliedFrom 0 ?L 1733313600000 \<le> todayMidnight 0 1733313600000"
    by (simp add: appliedFrom_def exampleLedger_def todayMidnight_def MS_PER_DAY_def)
  have pd: "purgeDue ?L 1733313600000"
    by (simp add: purgeDue_def exampleLedger_def MS_PER_DAY_def)
  have ap1: "applyDailyCosts 0 (exampleStore ?L) ?L 1733313600000
               = ((exampleStore ?R)\<lparr>users := Map.empty\<rparr>, ?R)"
    by (simp add: applyDailyCosts_purge[OF af pd] tm) (simp add: exampleStore_def exampleLedger_def)
  have ap2: "applyDailyCosts 0 ?S ?L 1733313600000
               = ((exampleStore ?R)\<lparr>users := Map.empty, redeems := [''GIFT'' \<mapsto> ?rc]\<rparr>, ?R)"
    by (simp add: applyDailyCosts_purge[OF af pd] tm) (simp add: exampleStore_def exampleLedger_def)
  note T = purge_after_thirty_days_off[OF acc1 hd off since nz due pos le, unfolded Let_def]
  have w1: "fst (buildStatus 0 (exampleStore ?L) ''alice'' 1733313600000)
     = (exampleStore ?R)\<lparr>users := Map.empty\<rparr>"
    using T[THEN conjunct2, THEN conjunct2, THEN conjunct2, THEN conjunct2, THEN conjunct2, THEN conjunct2, THEN conjunct2, THEN conjunct2, THEN conjunct1] by (simp add: ap1)
  have w2: "s_purged (snd (buildStatus 0 (exampleStore ?L) ''alice'' 1733313600000))"
    using T[THEN conjunct2, THEN conjunct2, THEN conjunct2, THEN conjunct2, THEN conjunct2, THEN conjunct2, THEN conjunct2, THEN conjunct2, THEN conjunct2, THEN conjunct1] .
  have w3: "toggle 0 (exampleStore ?L) ''alice'' (Some True) 1733313600000
     = ((exampleStore ?R)\<lparr>users := Map.empty\<rparr>, Inl InsufficientPoints)"
    using T[THEN conjunct2, THEN conjunct2, THEN conjunct2, THEN conjunct2, THEN conjunct2, THEN conjunct2, THEN conjunct2, THEN conjunct2, THEN conjunct2, THEN conjunct2, THEN conjunct2, THEN conjunct1] by (simp add: ap1)
  have w5: "\<not> s_purged (snd (buildStatus 0 ((exampleStore ?R)\<lparr>users := Map.empty\<rparr>)
          ''alice'' 1733313600001))"
    using T[THEN conjunct2, THEN conjunct2, THEN conjunct2, THEN conjunct2, THEN conjunct2, THEN conjunct2, THEN conjunct2, THEN conjunct2, THEN conjunct2, THEN conjunct2, THEN conjunct2, THEN conjunct2, THEN conjunct2, THEN conjunct2, THEN conjunct2, rule_format, of 1733313600001]
    by (simp add: ap1 tm)
  have w6: "fst (checkin 0 (exampleStore ?L) ''alice'' 1733313600000)
     = (exampleStore ((exampleLedger 5 False (Some 1733270400000))
                        \<lparr>lastCostAppliedAt := 1733270400000,
                         lastCheckInAt := Some 1733313600000,
                         lastCheckInDate := Some 20061\<rparr>))\<lparr>users := Map.empty\<rparr>"
    using T[THEN conjunct2, THEN conjunct2, THEN conjunct2, THEN conjunct2, THEN conjunct2, THEN conjunct2, THEN conjunct2, THEN conjunct2, THEN conjunct2, THEN conjunct2, THEN conjunct2, THEN conjunct2, THEN conjunct2, THEN conjunct1]
    by (simp add: ap1 fresh ds) (simp add: setAccount_def exampleStore_def exampleLedger_def)
  have w4: "fst (redeem 0 ?S ''alice'' ''gift'' 1733313600000)
     = (exampleStore ((exampleLedger 7 False (Some 1733270400000))
                        \<lparr>lastCostAppliedAt := 1733270400000\<rparr>))
         \<lparr>users := Map.empty,
          redeems := [''GIFT'' \<mapsto> \<lparr>r_code = ''GIFT'', r_points = 7, r_used = True,
                                   r_usedBy = Some ''alice'', r_createdAt = 0,
                                   r_usedAt = Some 1733313600000\<rparr>]\<rparr>"
    using purge_after_thirty_days_off[OF acc2 hd off since nz due pos le, unfolded Let_def,
        THEN conjunct2, THEN conjunct2, THEN conjunct2, THEN conjunct2, THEN conjunct2,
        THEN conjunct2, THEN conjunct2, THEN conjunct2, THEN conjunct2, THEN conjunct2,
        THEN conjunct2, THEN conjunct2, THEN conjunct2, THEN conjunct2,
        THEN conjunct1, rule_format, of "''gift''" ?rc]
    by (simp add: ap2 k r7) (simp add: setAccount_def exampleStore_def exampleLedger_def)
  show ?thesis using w1 w2 w3 w4 w5 w6 by simp
qed





text \<open>
  Claim C7 says that deleting a used code of either kind is rejected and the record is
  kept. The route for invite codes does so; the route for redeem codes has no such check:
  deleting the used redeem code \<^verbatim>\<open>GIFT\<close> succeeds and removes the record together with its
  \<^verbatim>\<open>usedBy\<close> and \<^verbatim>\<open>usedAt\<close>, while deleting the used invite code \<^verbatim>\<open>INVITE\<close> is rejected.
\<close>

theorem delete_used_redeem_code_succeeds:
  "deleteRedeemCode
     (emptyStore\<lparr>redeems := [''GIFT'' \<mapsto> \<lparr>r_code = ''GIFT'', r_points = 7, r_used = True,
                                r_usedBy = Some ''bob'', r_createdAt = 0, r_usedAt = Some 1\<rparr>]\<rparr>)
     ''GIFT''
     = (emptyStore, Inr ()) \<and>
   deleteInviteCode
     (emptyStore\<lparr>invites := [''INVITE'' \<mapsto> \<lparr>i_code = ''INVITE'', i_used = True,
                                i_usedBy = Some ''bob'', i_createdAt = 0, i_usedAt = Some 1,
                                i_expiresAt = None\<rparr>]\<rparr>)
     ''INVITE''
     = (emptyStore\<lparr>invites := [''INVITE'' \<mapsto> \<lparr>i_code = ''INVITE'', i_used = True,
                                i_usedBy = Some ''bob'', i_createdAt = 0, i_usedAt = Some 1,
                                i_expiresAt = None\<rparr>]\<rparr>,
        Inl InviteUsed)"
  by (simp add: deleteRedeemCode_def deleteInviteCode_def toRedeemCodeKey_def toInviteCodeKey_def
        toUpperCase_def upperChar_def emptyStore_def Let_def)

text \<open>
  Claim C8 says that a creation whose retries are exhausted fails instead of storing a
  colliding code. The route for invite codes does so; the route for redeem codes stores
  whatever code the loop ends with: when every draw yields the stored code
  \<^verbatim>\<open>AAAAAAAAAAAA\<close>, creating one redeem code succeeds and replaces the stored record (used by
  \<open>bob\<close>, 7 points) with a fresh unused one of 5 points, while creating one invite code
  fails with the generation error and leaves the store as it is.
\<close>

theorem colliding_redeem_code_overwrites:
  "createRedeemCodes (\<lambda>k. 0)
     (emptyStore\<lparr>redeems := [''AAAAAAAAAAAA'' \<mapsto>
         \<lparr>r_code = ''AAAAAAAAAAAA'', r_points = 7, r_used = True, r_usedBy = Some ''bob'',
          r_createdAt = 0, r_usedAt = Some 1\<rparr>]\<rparr>) 5 1 100
     = (emptyStore\<lparr>redeems := [''AAAAAAAAAAAA'' \<mapsto>
         \<lparr>r_code = ''AAAAAAAAAAAA'', r_points = 5, r_used = False, r_usedBy = None,
          r_createdAt = 100, r_usedAt = None\<rparr>]\<rparr>,
        Inr [\<lparr>r_code = ''AAAAAAAAAAAA'', r_points = 5, r_used = False, r_usedBy = None,
              r_createdAt = 100, r_usedAt = None\<rparr>]) \<and>
   createInviteCodes (\<lambda>k. 0)
     (emptyStore\<lparr>invites := [''AAAAAAAAAAAA'' \<mapsto>
         \<lparr>i_code = ''AAAAAAAAAAAA'', i_used = True, i_usedBy = Some ''bob'', i_createdAt = 0,
          i_usedAt = Some 1, i_expiresAt = None\<rparr>]\<rparr>) 1 None 100
     = (emptyStore\<lparr>invites := [''AAAAAAAAAAAA'' \<mapsto>
         \<lparr>i_code = ''AAAAAAAAAAAA'', i_used = True, i_usedBy = Some ''bob'', i_createdAt = 0,
          i_usedAt = Some 1, i_expiresAt = None\<rparr>]\<rparr>,
        Inl GenerationFailed)"
proof -
  let ?S = "emptyStore\<lparr>redeems := [''AAAAAAAAAAAA'' \<mapsto>
         \<lparr>r_code = ''AAAAAAAAAAAA'', r_points = 7, r_used = True, r_usedBy = Some ''bob'',
          r_createdAt = 0, r_usedAt = Some 1\<rparr>]\<rparr>"
  let ?I = "emptyStore\<lparr>invites := [''AAAAAAAAAAAA'' \<mapsto>
         \<lparr>i_code = ''AAAAAAAAAAAA'', i_used = True, i_usedBy = Some ''bob'', i_createdAt = 0,
          i_usedAt = Some 1, i_expiresAt = None\<rparr>]\<rparr>"
  have k: "toUpperCase ''AAAAAAAAAAAA'' = ''AAAAAAAAAAAA''"
    by (simp add: toUpperCase_def upperChar_def)
  have t1: "redeems ?S (toRedeemCodeKey ''AAAAAAAAAAAA'') \<noteq> None"
    by (simp add: toRedeemCodeKey_def k)
  have t2: "invites ?I (toInviteCodeKey ''AAAAAAAAAAAA'') \<noteq> None"
    by (simp add: toInviteCodeKey_def k)
  have r1: "retryCollision (\<lambda>c. redeems ?S (toRedeemCodeKey c) \<noteq> None) 10 (\<lambda>k. 0)
              ''AAAAAAAAAAAA'' 0 (0 + 12) = (''AAAAAAAAAAAA'', 10, 0 + 12 + 12 * (10 - 0))"
    by (rule retryCollision_stuck[where taken = "\<lambda>c. redeems ?S (toRedeemCodeKey c) \<noteq> None",
          OF t1 generateRedeemCode_zero]) simp
  have r2: "retryCollision (\<lambda>c. invites ?I (toInviteCodeKey c) \<noteq> None) 50 (\<lambda>k. 0)
              ''AAAAAAAAAAAA'' 0 (0 + 12) = (''AAAAAAAAAAAA'', 50, 0 + 12 + 12 * (50 - 0))"
    by (rule retryCollision_stuck[where taken = "\<lambda>c. invites ?I (toInviteCodeKey c) \<noteq> None",
          OF t2 generateRedeemCode_zero]) simp
  have one: "nat 1 = Suc 0" by simp
  have l1: "createRedeemLoop (\<lambda>k. 0) 100 5 (Suc 0) ?S 0 []
     = (emptyStore\<lparr>redeems := [''AAAAAAAAAAAA'' \<mapsto>
         \<lparr>r_code = ''AAAAAAAAAAAA'', r_points = 5, r_used = False, r_usedBy = None,
          r_createdAt = 100, r_usedAt = None\<rparr>]\<rparr>,
        [\<lparr>r_code = ''AAAAAAAAAAAA'', r_points = 5, r_used = False, r_usedBy = None,
              r_createdAt = 100, r_usedAt = None\<rparr>])"
    apply (simp only: createRedeemLoop.simps generateRedeemCode_zero r1 prod.case Let_def)
    apply (simp add: toRedeemCodeKey_def k)
    done
  have l2: "createInviteLoop (\<lambda>k. 0) 100 None (Suc 0) ?I 0 [] = (?I, Inl GenerationFailed)"
    apply (simp only: createInviteLoop.simps generateRedeemCode_zero r2 prod.case Let_def)
    apply simp
    done
  have 1: "createRedeemCodes (\<lambda>k. 0) ?S 5 1 100
     = (emptyStore\<lparr>redeems := [''AAAAAAAAAAAA'' \<mapsto>
         \<lparr>r_code = ''AAAAAAAAAAAA'', r_points = 5, r_used = False, r_usedBy = None,
          r_createdAt = 100, r_usedAt = None\<rparr>]\<rparr>,
        Inr [\<lparr>r_code = ''AAAAAAAAAAAA'', r_points = 5, r_used = False, r_usedBy = None,
              r_createdAt = 100, r_usedAt = None\<rparr>])"
    unfolding createRedeemCodes_def one l1 by simp
  have 2: "createInviteCodes (\<lambda>k. 0) ?I 1 None 100 = (?I, Inl GenerationFailed)"
    unfolding createInviteCodes_def one l2 by simp
  show ?thesis using 1 2 by simp
qed

text \<open>
  Claim C9 asks that the balance after every ledger operation, among them an
  administrative add, subtract or set with an amount that is not negative, is at least 0
  and a multiple of one half. The administrative route only checks that the amount is a
  number and not negative, and it rounds by \<^verbatim>\<open>Math.round(newPoints * 2) / 2\<close>. For the amount
  \<^verbatim>\<open>1e308\<close> in the request body the doubling overflows: the new balance is \<^verbatim>\<open>Infinity\<close>, which
  JSON writes as \<^verbatim>\<open>null\<close>. A set with this amount, and an add of it to a ledger of 20 points,
  leave \<^verbatim>\<open>points: null\<close> in the stored ledger and in the response: the balance is no longer a
  number, so neither at least 0 nor a multiple of one half.
\<close>

theorem admin_points_overflow_stores_null:
  "adminPoints [''alice'' \<mapsto> exampleAccountData (Some 20)] ''alice'' ''set''
       (Some (fl (10 ^ 308)))
     = ([''alice'' \<mapsto> exampleAccountData None], Inr None) \<and>
   adminPoints [''alice'' \<mapsto> exampleAccountData (Some 20)] ''alice'' ''add''
       (Some (fl (10 ^ 308)))
     = ([''alice'' \<mapsto> exampleAccountData None], Inr None)"
proof -
  define a :: rat where "a = 5010420900022432 * pow2 971"
  have am: "fl (10 ^ 308) = Fin a"
    by (simp only: fl_1e308 a_def)
  have p: "0 < a"
    using pow2_pos[of 971] by (simp add: a_def)
  have n: "\<not> jsLess (Fin a) (Fin 0)"
    using p by (simp add: jsLess_def)
  have m: "jsMul (Fin a) (Fin 2) = PInf"
    using fl_1e308_doubled by (simp only: jsMul_def a_def prod.case jsnum.case)
  have r: "jsDiv (Math_round_num (jsMul (Fin a) (Fin 2))) (Fin 2) = PInf"
    by (simp add: m Math_round_num_def jsDiv_def jsLess_def)
  have s: "jsAdd (orZero (Some 20)) (Fin a) = Fin a"
    using fl_20_plus_1e308 by (simp only: jsAdd_def orZero_def a_def prod.case jsnum.case option.case)
  have d: "d_points (exampleAccountData (Some 20)) = Some 20"
    and u: "(exampleAccountData (Some 20))\<lparr>d_points := None\<rparr> = exampleAccountData None"
    by (simp_all add: exampleAccountData_def)
  show ?thesis
    unfolding am
    by (simp add: adminPoints_def n Let_def d s r toJSON_def u)
qed

text \<open>
  Claim C10: an invite code admits a new account while registration is closed. The
  registration route never reads the configuration: its outcome and its writes are the
  same whatever \<^verbatim>\<open>system:config\<close> holds. A request that passes the route's checks of the
  handle and the password, with a free handle and an invite code that is stored, unused
  and not expired, creates the user and marks the code used, in particular when
  \<^verbatim>\<open>registrationEnabled\<close> is false. On the OAuth path, with registration disabled,
  \<^verbatim>\<open>ensureUser\<close> creates a new handle and marks the code used whenever the invite code is
  stored, unused and not expired, and refuses a new handle that comes without a code.
\<close>

theorem invite_registration_ignores_flag:
  "register hashPw salt rndHex (s\<lparr>config := c\<rparr>) req now =
     ((fst (register hashPw salt rndHex s req now))\<lparr>config := c\<rparr>,
      snd (register hashPw salt rndHex s req now)) \<and>
   (\<forall>ic. q_code req \<noteq> [] \<and> q_handle req \<noteq> [] \<and> 6 \<le> length (q_password req) \<and>
          handleAcceptable (finalHandle rndHex (q_handle req)) \<and>
          users s (finalHandle rndHex (q_handle req)) = None \<and>
          invites s (toUpperCase (q_code req)) = Some ic \<and> \<not> i_used ic \<and>
          (\<forall>e. i_expiresAt ic = Some e \<longrightarrow> now \<le> e) \<longrightarrow>
      register hashPw salt rndHex s req now =
        (let fh = finalHandle rndHex (q_handle req)
         in (s\<lparr>users := (users s)(fh \<mapsto>
                  \<lparr>u_handle = fh,
                   u_name = (case q_name req of
                               None \<Rightarrow> fh | Some n \<Rightarrow> if trim n \<noteq> [] then trim n else fh),
                   u_created = now, u_password = hashPw (q_password req) salt,
                   u_admin = False, u_enabled = True, u_salt = salt\<rparr>),
               invites := (invites s)(toUpperCase (q_code req) \<mapsto>
                  ic\<lparr>i_used := True, i_usedBy := Some fh, i_usedAt := Some now\<rparr>)\<rparr>,
             Inr fh))) \<and>
   (\<forall>ic code. users s h = None \<and> config s = Some \<lparr>registrationEnabled = False\<rparr> \<and>
          code \<noteq> [] \<and> invites s (toUpperCase code) = Some ic \<and> \<not> i_used ic \<and>
          (\<forall>e. i_expiresAt ic = Some e \<longrightarrow> now \<le> e) \<longrightarrow>
      ensureUser s h name (Some code) now =
        (s\<lparr>users := (users s)(h \<mapsto>
               \<lparr>u_handle = h, u_name = (if name \<noteq> [] then name else h), u_created = now,
                u_password = [], u_admin = False, u_enabled = True, u_salt = []\<rparr>),
            invites := (invites s)(toUpperCase code \<mapsto>
               ic\<lparr>i_used := True, i_usedBy := Some h, i_usedAt := Some now\<rparr>)\<rparr>,
         Inr ())) \<and>
   (users s h = None \<and> config s = Some \<lparr>registrationEnabled = False\<rparr> \<longrightarrow>
      ensureUser s h name None now = (s, Inl RegistrationDisabled))"
proof (intro conjI allI impI)
  show "register hashPw salt rndHex (s\<lparr>config := c\<rparr>) req now =
     ((fst (register hashPw salt rndHex s req now))\<lparr>config := c\<rparr>,
      snd (register hashPw salt rndHex s req now))"
    by (rule register_config)
next
  fix ic
  assume a: "q_code req \<noteq> [] \<and> q_handle req \<noteq> [] \<and> 6 \<le> length (q_password req) \<and>
          handleAcceptable (finalHandle rndHex (q_handle req)) \<and>
          users s (finalHandle rndHex (q_handle req)) = None \<and>
          invites s (toUpperCase (q_code req)) = Some ic \<and> \<not> i_used ic \<and>
          (\<forall>e. i_expiresAt ic = Some e \<longrightarrow> now \<le> e)"
  then have pw: "q_password req \<noteq> []" by auto
  have ex: "(case i_expiresAt ic of None \<Rightarrow> False | Some e \<Rightarrow> e \<noteq> 0 \<and> e < now) = False"
    using a by (simp add: unexpired_check)
  have ha: "\<not> length (finalHandle rndHex (q_handle req)) < 3"
    "finalHandle rndHex (q_handle req) \<notin> set USERNAME_BLACKLIST"
    "\<not> (\<exists>pattern \<in> set sensitivePatterns. str_includes (finalHandle rndHex (q_handle req)) pattern)"
    using a by (simp_all add: handleAcceptable_def)
  show "register hashPw salt rndHex s req now =
        (let fh = finalHandle rndHex (q_handle req)
         in (s\<lparr>users := (users s)(fh \<mapsto>
                  \<lparr>u_handle = fh,
                   u_name = (case q_name req of
                               None \<Rightarrow> fh | Some n \<Rightarrow> if trim n \<noteq> [] then trim n else fh),
                   u_created = now, u_password = hashPw (q_password req) salt,
                   u_admin = False, u_enabled = True, u_salt = salt\<rparr>),
               invites := (invites s)(toUpperCase (q_code req) \<mapsto>
                  ic\<lparr>i_used := True, i_usedBy := Some fh, i_usedAt := Some now\<rparr>)\<rparr>,
             Inr fh))"
    using a pw ha ex
    by (simp add: register_def Let_def)
next
  fix ic code
  assume a: "users s h = None \<and> config s = Some \<lparr>registrationEnabled = False\<rparr> \<and>
          code \<noteq> [] \<and> invites s (toUpperCase code) = Some ic \<and> \<not> i_used ic \<and>
          (\<forall>e. i_expiresAt ic = Some e \<longrightarrow> now \<le> e)"
  then have v: "validateInviteCode s code now"
    by (simp add: validateInviteCode_valid)
  show "ensureUser s h name (Some code) now =
        (s\<lparr>users := (users s)(h \<mapsto>
               \<lparr>u_handle = h, u_name = (if name \<noteq> [] then name else h), u_created = now,
                u_password = [], u_admin = False, u_enabled = True, u_salt = []\<rparr>),
            invites := (invites s)(toUpperCase code \<mapsto>
               ic\<lparr>i_used := True, i_usedBy := Some h, i_usedAt := Some now\<rparr>)\<rparr>,
         Inr ())"
    using a v
    by (simp add: ensureUser_def isRegistrationEnabled_def getSystemConfig_def Let_def
          markInviteCodeAsUsed_def)
next
  assume "users s h = None \<and> config s = Some \<lparr>registrationEnabled = False\<rparr>"
  then show "ensureUser s h name None now = (s, Inl RegistrationDisabled)"
    by (simp add: ensureUser_def isRegistrationEnabled_def getSystemConfig_def Let_def)
qed

theorem invite_registration_ignores_flag_witness:
  "register (\<lambda>p s. s @ p) ''salt'' ''abc123''
     (emptyStore\<lparr>invites := [''INVITE01'' \<mapsto>
          \<lparr>i_code = ''INVITE01'', i_used = False, i_usedBy = None, i_createdAt = 0,
           i_usedAt = None, i_expiresAt = Some 1740000000000\<rparr>],
        config := Some \<lparr>registrationEnabled = False\<rparr>\<rparr>)
     \<lparr>q_code = ''invite01'', q_handle = ''Carol'', q_password = ''secret'', q_name = None\<rparr>
     1730635200000
   = (emptyStore\<lparr>users := [''carol'' \<mapsto>
          \<lparr>u_handle = ''carol'', u_name = ''carol'', u_created = 1730635200000,
           u_password = ''saltsecret'', u_admin = False, u_enabled = True, u_salt = ''salt''\<rparr>],
        invites := [''INVITE01'' \<mapsto>
          \<lparr>i_code = ''INVITE01'', i_used = True, i_usedBy = Some ''carol'', i_createdAt = 0,
           i_usedAt = Some 1730635200000, i_expiresAt = Some 1740000000000\<rparr>],
        config := Some \<lparr>registrationEnabled = False\<rparr>\<rparr>,
      Inr ''carol'') \<and>
   ensureUser
     (emptyStore\<lparr>invites := [''INVITE01'' \<mapsto>
          \<lparr>i_code = ''INVITE01'', i_used = False, i_usedBy = None, i_createdAt = 0,
           i_usedAt = None, i_expiresAt = Some 1740000000000\<rparr>],
        config := Some \<lparr>registrationEnabled = False\<rparr>\<rparr>)
     ''discord-42'' ''Dora'' (Some ''invite01'') 1730635200000
   = (emptyStore\<lparr>users := [''discord-42'' \<mapsto>
          \<lparr>u_handle = ''discord-42'', u_name = ''Dora'', u_created = 1730635200000,
           u_password = [], u_admin = False, u_enabled = True, u_salt = []\<rparr>],
        invites := [''INVITE01'' \<mapsto>
          \<lparr>i_code = ''INVITE01'', i_used = True, i_usedBy = Some ''discord-42'', i_createdAt = 0,
           i_usedAt = Some 1730635200000, i_expiresAt = Some 1740000000000\<rparr>],
        config := Some \<lparr>registrationEnabled = False\<rparr>\<rparr>,
      Inr ()) \<and>
   ensureUser
     (emptyStore\<lparr>invites := [''INVITE01'' \<mapsto>
          \<lparr>i_code = ''INVITE01'', i_used = False, i_usedBy = None, i_createdAt = 0,
           i_usedAt = None, i_expiresAt = Some 1740000000000\<rparr>],
        config := Some \<lparr>registrationEnabled = False\<rparr>\<rparr>)
     ''discord-42'' ''Dora'' None 1730635200000
   = (emptyStore\<lparr>invites := [''INVITE01'' \<mapsto>
          \<lparr>i_code = ''INVITE01'', i_used = False, i_usedBy = None, i_createdAt = 0,
           i_usedAt = None, i_expiresAt = Some 1740000000000\<rparr>],
        config := Some \<lparr>registrationEnabled = False\<rparr>\<rparr>,
      Inl RegistrationDisabled)"
proof -
  let ?ic = "\<lparr>i_code = ''INVITE01'', i_used = False, i_usedBy = None, i_createdAt = 0,
           i_usedAt = None, i_expiresAt = Some 1740000000000\<rparr>"
  let ?S = "emptyStore\<lparr>invites := [''INVITE01'' \<mapsto> ?ic],
              config := Some \<lparr>registrationEnabled = False\<rparr>\<rparr>"
  let ?req = "\<lparr>q_code = ''invite01'', q_handle = ''Carol'', q_password = ''secret'',
                q_name = None\<rparr>"
  have k: "toUpperCase ''invite01'' = ''INVITE01''"
    by (simp add: toUpperCase_def upperChar_def)
  have f: "finalHandle ''abc123'' ''Carol'' = ''carol''"
    by code_simp
  have ok: "handleAcceptable ''carol''"
    by code_simp
  note T = invite_registration_ignores_flag[where hashPw = "\<lambda>p s. s @ p" and salt = "''salt''"
      and rndHex = "''abc123''" and s = ?S and c = None and req = ?req and now = 1730635200000
      and h = "''discord-42''" and name = "''Dora''"]
  have 1: "register (\<lambda>p s. s @ p) ''salt'' ''abc123'' ?S ?req 1730635200000
   = (emptyStore\<lparr>users := [''carol'' \<mapsto>
          \<lparr>u_handle = ''carol'', u_name = ''carol'', u_created = 1730635200000,
           u_password = ''saltsecret'', u_admin = False, u_enabled = True, u_salt = ''salt''\<rparr>],
        invites := [''INVITE01'' \<mapsto> ?ic\<lparr>i_used := True, i_usedBy := Some ''carol'',
                                        i_usedAt := Some 1730635200000\<rparr>],
        config := Some \<lparr>registrationEnabled = False\<rparr>\<rparr>,
      Inr ''carol'')"
    using T[THEN conjunct2, THEN conjunct1, rule_format, of ?ic] ok
    by (simp add: k f emptyStore_def Let_def)
  have 2: "ensureUser ?S ''discord-42'' ''Dora'' (Some ''invite01'') 1730635200000
   = (emptyStore\<lparr>users := [''discord-42'' \<mapsto>
          \<lparr>u_handle = ''discord-42'', u_name = ''Dora'', u_created = 1730635200000,
           u_password = [], u_admin = False, u_enabled = True, u_salt = []\<rparr>],
        invites := [''INVITE01'' \<mapsto> ?ic\<lparr>i_used := True, i_usedBy := Some ''discord-42'',
                                        i_usedAt := Some 1730635200000\<rparr>],
        config := Some \<lparr>registrationEnabled = False\<rparr>\<rparr>,
      Inr ())"
    using T[THEN conjunct2, THEN conjunct2, THEN conjunct1, rule_format,
        where ic = ?ic and code = "''invite01''"]
    by (simp add: k emptyStore_def)
  have 3: "ensureUser ?S ''discord-42'' ''Dora'' None 1730635200000 = (?S, Inl RegistrationDisabled)"
    using T[THEN conjunct2, THEN conjunct2, THEN conjunct2]
    by (simp add: emptyStore_def)
  show ?thesis using 1 2 3 by simp
qed

end
